theory Spec2Isabelle
  imports Main "HOL-Library.Sublist"
begin

section \<open>JavaScript values and objects\<close>

text \<open>
  The dev configuration comes from a TOML file and command-line flags, and the code
  inspects it with \<^verbatim>\<open>typeof\<close>, truthiness and \<^verbatim>\<open>===\<close>; its values are therefore
  modelled as untyped JavaScript values. Numbers are integers (ports); floating-point
  numbers and NaN are outside the model.
\<close>

datatype jsval =
    Undefined
  | Null
  | JBool bool
  | JNum int
  | JStr string
  | JArr "jsval list"
  | JObj "(string \<times> jsval) list"

fun truthy :: "jsval \<Rightarrow> bool" where
  "truthy Undefined = False"
| "truthy Null = False"
| "truthy (JBool b) = b"
| "truthy (JNum n) = (n \<noteq> 0)"
| "truthy (JStr s) = (s \<noteq> [])"
| "truthy (JArr xs) = True"
| "truthy (JObj kvs) = True"

fun typeof :: "jsval \<Rightarrow> string" where
  "typeof Undefined = ''undefined''"
| "typeof Null = ''object''"
| "typeof (JBool b) = ''boolean''"
| "typeof (JNum n) = ''number''"
| "typeof (JStr s) = ''string''"
| "typeof (JArr xs) = ''object''"
| "typeof (JObj kvs) = ''object''"

text \<open>
  \<^verbatim>\<open>a || b\<close> and \<^verbatim>\<open>a && b\<close> on values. Strict equality \<^verbatim>\<open>===\<close> is written \<open>=\<close>: wherever
  the code compares two values, one of them is a number, a string or \<^verbatim>\<open>undefined\<close>, and on
  those \<^verbatim>\<open>===\<close> is equality of values.
\<close>

definition js_or :: "jsval \<Rightarrow> jsval \<Rightarrow> jsval" where
  "js_or a b = (if truthy a then a else b)"

definition js_and :: "jsval \<Rightarrow> jsval \<Rightarrow> jsval" where
  "js_and a b = (if truthy a then b else a)"

text \<open>
  The objects the code builds and reads by property name (\<^verbatim>\<open>devConfig\<close>, \<^verbatim>\<open>options\<close>,
  the settings objects) are finite maps from property names to values. An absent
  property (\<open>None\<close>) and a property holding \<^verbatim>\<open>undefined\<close> (\<open>Some Undefined\<close>) are
  different objects that read the same: \<open>field\<close> is the property read \<^verbatim>\<open>obj.k\<close>.
  Object spread \<^verbatim>\<open>{...a, ...b}\<close> is \<open>a ++ b\<close>.
\<close>

type_synonym jsobj = "string \<rightharpoonup> jsval"

definition field :: "jsobj \<Rightarrow> string \<Rightarrow> jsval" where
  "field obj k = (case obj k of None \<Rightarrow> Undefined | Some v \<Rightarrow> v)"

text \<open>Property read on a value: \<^verbatim>\<open>v.k\<close> for an object literal, \<^verbatim>\<open>undefined\<close> on the
  other values that have no such property.\<close>

fun member :: "jsval \<Rightarrow> string \<Rightarrow> jsval" where
  "member (JObj kvs) k = (case map_of kvs k of None \<Rightarrow> Undefined | Some v \<Rightarrow> v)"
| "member v k = Undefined"

section \<open>Errors, effects and the outside world\<close>

datatype error = TypeError string | RangeError string | Error string

text \<open>
  Every call that leaves the function is recorded, in order, in a trace; a port request
  is recorded with its answer. An asynchronous function of the source is a function from
  the trace so far to its result (or the error it throws) and the extended trace.
\<close>

datatype event =
    Log string
  | AcquirePort jsval int "error + int"
  | GetPort jsval "error + int"
  | ReadFile string
  | GetBuildSettings
  | Prompt
  | GetFramework jsval
  | GetSettings
  | GetInternalFunctionsDir string

type_synonym 'a io = "event list \<Rightarrow> (error + 'a) \<times> event list"

definition ret :: "'a \<Rightarrow> 'a io" where
  "ret x w = (Inr x, w)"

definition throw :: "error \<Rightarrow> 'a io" where
  "throw e w = (Inl e, w)"

definition io_bind :: "'a io \<Rightarrow> ('a \<Rightarrow> 'b io) \<Rightarrow> 'b io" where
  "io_bind m f w = (case m w of (Inl e, w') \<Rightarrow> (Inl e, w') | (Inr x, w') \<Rightarrow> f x w')"

definition lift :: "error + 'a \<Rightarrow> 'a io" where
  "lift r w = (r, w)"

definition log :: "string \<Rightarrow> unit io" where
  "log s w = (Inr (), w @ [Log s])"

text \<open>The settings objects of the build-info library (\<^verbatim>\<open>@netlify/build-info\<close>), with
  the fields this code reads.\<close>

record Framework =
  fw_id :: string
  fw_name :: string

record Settings =
  name :: string
  devCommand :: "string option"
  dist :: jsval
  env :: jsval
  framework :: Framework
  frameworkPort :: jsval
  plugins_from_config_file :: "string list option"
  plugins_recommended :: "string list option"
  pollingStrategies :: jsval
  packagePath :: "string option"

text \<open>A project: what \<^verbatim>\<open>project.getBuildSettings()\<close> returns, the workspace (if any,
  with its \<^verbatim>\<open>isRoot\<close> flag) and \<^verbatim>\<open>jsWorkspaceRoot\<close>.\<close>

record Project =
  buildSettings :: "Settings list"
  workspace :: "bool option"
  jsWorkspaceRoot :: string

record inquirerOption =
  opt_name :: string
  opt_value :: Settings
  opt_short :: string

text \<open>
  What the module imports and does not define: the colouring functions of
  \<^verbatim>\<open>chalk\<close>, the constants \<^verbatim>\<open>NETLIFYDEVWARN\<close> and \<^verbatim>\<open>EOL\<close>, the process and path functions
  of Node, the file system, \<^verbatim>\<open>get-port\<close>, \<^verbatim>\<open>acquirePort\<close> of \<^verbatim>\<open>./dev.mjs\<close>,
  \<^verbatim>\<open>getInternalFunctionsDir\<close>, the build-info library and the interactive prompt. They
  are parameters. The port functions see the port requests made so far and their
  answers, so their answers may depend on the ports handed out before; both can reject
  (\<^verbatim>\<open>get-port\<close> does for a port that is not a valid port number). \<^verbatim>\<open>readFile\<close> answers
  with the file's content or with the \<^verbatim>\<open>message\<close> of the error it rejects with.
\<close>

record externals =
  magenta :: "string \<Rightarrow> string"
  green :: "string \<Rightarrow> string"
  yellow :: "string \<Rightarrow> string"
  NETLIFYDEVWARN :: string
  EOL :: string
  cwd :: string
  path_join :: "string \<Rightarrow> string \<Rightarrow> string"
  path_resolve :: "string \<Rightarrow> string"
  path_dirname :: "string \<Rightarrow> string"
  path_relative :: "string \<Rightarrow> string \<Rightarrow> string"
  readFile :: "string \<Rightarrow> string + string"
  getPort :: "event list \<Rightarrow> jsval \<Rightarrow> error + int"
  acquirePort :: "event list \<Rightarrow> jsval \<Rightarrow> int \<Rightarrow> string \<Rightarrow> error + int"
  getInternalFunctionsDir :: "string \<Rightarrow> jsval"
  getFramework :: "jsval \<Rightarrow> Project \<Rightarrow> error + Framework"
  getSettings :: "Framework \<Rightarrow> Project \<Rightarrow> string \<Rightarrow> Settings"
  prompt :: "inquirerOption list \<Rightarrow> Settings"

fun is_port_event :: "event \<Rightarrow> bool" where
  "is_port_event (AcquirePort configuredPort defaultPort answer) = True"
| "is_port_event (GetPort port answer) = True"
| "is_port_event e = False"

definition port_events :: "event list \<Rightarrow> event list" where
  "port_events w = filter is_port_event w"

definition acquirePort_io :: "externals \<Rightarrow> jsval \<Rightarrow> int \<Rightarrow> string \<Rightarrow> int io" where
  "acquirePort_io X configuredPort defaultPort errorMessage w =
     (acquirePort X (port_events w) configuredPort defaultPort errorMessage,
      w @ [AcquirePort configuredPort defaultPort
             (acquirePort X (port_events w) configuredPort defaultPort errorMessage)])"

definition getPort_io :: "externals \<Rightarrow> jsval \<Rightarrow> int io" where
  "getPort_io X port w =
     (getPort X (port_events w) port, w @ [GetPort port (getPort X (port_events w) port)])"

definition readFile_io :: "externals \<Rightarrow> string \<Rightarrow> (string + string) io" where
  "readFile_io X file w = (Inr (readFile X file), w @ [ReadFile file])"

section \<open>HTTPS settings\<close>

definition quote :: "string \<Rightarrow> string" where
  "quote str = CHR 0x27 # str @ [CHR 0x27]"

definition formatProperty :: "externals \<Rightarrow> string \<Rightarrow> string" where
  "formatProperty X str = magenta X (quote str)"

definition formatValue :: "externals \<Rightarrow> string \<Rightarrow> string" where
  "formatValue X str = green X (quote str)"

definition https_options_message :: "externals \<Rightarrow> string" where
  "https_options_message X =
     ''https options should be an object with '' @ formatProperty X ''keyFile'' @ '' and ''
       @ formatProperty X ''certFile'' @ '' string properties''"

definition key_read_message :: "string \<Rightarrow> string" where
  "key_read_message reason = ''Error reading private key file: '' @ reason"

definition cert_read_message :: "string \<Rightarrow> string" where
  "cert_read_message reason = ''Error reading certificate file: '' @ reason"

text \<open>
  \<^verbatim>\<open>readHttpsSettings\<close>. Reading \<^verbatim>\<open>options.keyFile\<close> on \<^verbatim>\<open>null\<close> throws in JavaScript
  (\<^verbatim>\<open>typeof null\<close> is \<^verbatim>\<open>'object'\<close>). The two \<^verbatim>\<open>readFile\<close> calls are both started, key
  first, and \<^verbatim>\<open>Promise.allSettled\<close> waits for both before the checks run.
\<close>

definition readHttpsSettings :: "externals \<Rightarrow> jsval \<Rightarrow> jsval io" where
  "readHttpsSettings X options =
     (if typeof options \<noteq> ''object'' then throw (TypeError (https_options_message X))
      else if options = Null then
        throw (TypeError (''Cannot read properties of null (reading '' @ quote ''keyFile'' @ '')''))
      else if \<not> truthy (member options ''keyFile'') \<or> \<not> truthy (member options ''certFile'')
        then throw (TypeError (https_options_message X))
      else case member options ''keyFile'' of
        JStr keyFile \<Rightarrow>
          (case member options ''certFile'' of
             JStr certFile \<Rightarrow>
               io_bind (readFile_io X keyFile) (\<lambda>keyResult.
               io_bind (readFile_io X certFile) (\<lambda>certResult.
                 case keyResult of
                   Inl keyError \<Rightarrow> throw (Error (key_read_message keyError))
                 | Inr key \<Rightarrow>
                     (case certResult of
                        Inl certError \<Rightarrow> throw (Error (cert_read_message certError))
                      | Inr cert \<Rightarrow>
                          ret (JObj [(''key'', JStr key), (''cert'', JStr cert),
                                     (''keyFilePath'', JStr (path_resolve X keyFile)),
                                     (''certFilePath'', JStr (path_resolve X certFile))]))))
           | _ \<Rightarrow> throw (TypeError ''Certificate file configuration should be a string''))
      | _ \<Rightarrow> throw (TypeError ''Private key file configuration should be a string''))"

section \<open>Validation of the dev configuration\<close>

definition invalid_string_message :: "externals \<Rightarrow> string \<Rightarrow> string" where
  "invalid_string_message X property =
     ''Invalid '' @ formatProperty X property @ '' option provided in config. The value of ''
       @ formatProperty X property @ '' option must be a string''"

definition invalid_number_message :: "externals \<Rightarrow> string \<Rightarrow> string" where
  "invalid_number_message X property =
     ''Invalid '' @ formatProperty X property @ '' option provided in config. The value of ''
       @ formatProperty X property @ '' option must be an integer''"

definition same_ports_message :: "externals \<Rightarrow> string" where
  "same_ports_message X =
     formatProperty X ''port'' @ '' and '' @ formatProperty X ''targetPort''
       @ '' options cannot have same values. Please consult the documentation for more details: https://cli.netlify.com/netlify-dev#netlifytoml-dev-block''"

definition port_conflict_message :: "externals \<Rightarrow> string" where
  "port_conflict_message X =
     ''The '' @ formatProperty X ''port''
       @ '' option you specified conflicts with the port of your application. Please use a different value for ''
       @ formatProperty X ''port''"

definition validateStringProperty :: "externals \<Rightarrow> jsobj \<Rightarrow> string \<Rightarrow> error + unit" where
  "validateStringProperty X devConfig property =
     (if truthy (field devConfig property) \<and> typeof (field devConfig property) \<noteq> ''string''
      then Inl (TypeError (invalid_string_message X property))
      else Inr ())"

definition validateNumberProperty :: "externals \<Rightarrow> jsobj \<Rightarrow> string \<Rightarrow> error + unit" where
  "validateNumberProperty X devConfig property =
     (if truthy (field devConfig property) \<and> typeof (field devConfig property) \<noteq> ''number''
      then Inl (TypeError (invalid_number_message X property))
      else Inr ())"

definition validateFrameworkConfig :: "externals \<Rightarrow> jsobj \<Rightarrow> error + unit" where
  "validateFrameworkConfig X devConfig =
     (case validateStringProperty X devConfig ''command'' of
        Inl e \<Rightarrow> Inl e
      | Inr _ \<Rightarrow>
     (case validateNumberProperty X devConfig ''port'' of
        Inl e \<Rightarrow> Inl e
      | Inr _ \<Rightarrow>
     (case validateNumberProperty X devConfig ''targetPort'' of
        Inl e \<Rightarrow> Inl e
      | Inr _ \<Rightarrow>
     (if truthy (field devConfig ''targetPort'')
          \<and> field devConfig ''targetPort'' = field devConfig ''port''
      then Inl (Error (same_ports_message X))
      else Inr ()))))"

definition validateConfiguredPort :: "externals \<Rightarrow> jsobj \<Rightarrow> jsval \<Rightarrow> error + unit" where
  "validateConfiguredPort X devConfig detectedPort =
     (if truthy (field devConfig ''port'') \<and> field devConfig ''port'' = detectedPort
      then Inl (Error (port_conflict_message X))
      else Inr ())"

section \<open>The static server\<close>

definition DEFAULT_PORT :: int where
  "DEFAULT_PORT = 8888"

definition DEFAULT_STATIC_PORT :: int where
  "DEFAULT_STATIC_PORT = 3999"

definition default_dist_messages :: "externals \<Rightarrow> string list" where
  "default_dist_messages X =
     [NETLIFYDEVWARN X @ '' Unable to determine public folder to serve files from. Using current working directory'',
      NETLIFYDEVWARN X @ '' Setup a netlify.toml file with a [dev] section to specify your dev server settings.'',
      NETLIFYDEVWARN X @ '' See docs at: https://cli.netlify.com/netlify-dev#project-detection'']"

definition getDefaultDist :: "externals \<Rightarrow> jsval io" where
  "getDefaultDist X w = (Inr (JStr (cwd X)), w @ map Log (default_dist_messages X))"

definition static_port_error :: string where
  "static_port_error = ''Could not acquire configured static server port''"

definition getStaticServerPort :: "externals \<Rightarrow> jsobj \<Rightarrow> int io" where
  "getStaticServerPort X devConfig =
     acquirePort_io X (field devConfig ''staticServerPort'') DEFAULT_STATIC_PORT static_port_error"

definition dir_flag_message :: "externals \<Rightarrow> string" where
  "dir_flag_message X =
     NETLIFYDEVWARN X @ '' Using simple static server because '' @ formatProperty X ''--dir''
       @ '' flag was specified''"

definition static_framework_message :: "externals \<Rightarrow> string" where
  "static_framework_message X =
     NETLIFYDEVWARN X @ '' Using simple static server because ''
       @ formatProperty X ''[dev.framework]'' @ '' was set to '' @ formatValue X ''#static''"

definition ignoring_targetPort_message :: "externals \<Rightarrow> string" where
  "ignoring_targetPort_message X =
     NETLIFYDEVWARN X @ '' Ignoring '' @ formatProperty X ''targetPort''
       @ '' setting since using a simple static server.'' @ EOL X @ NETLIFYDEVWARN X
       @ '' Use --staticServerPort or [dev.staticServerPort] to configure the static server port''"

definition running_static_message :: "externals \<Rightarrow> string \<Rightarrow> string \<Rightarrow> string" where
  "running_static_message X projectDir dist_dir =
     NETLIFYDEVWARN X @ '' Running static server from '' @ [CHR 0x22]
       @ path_relative X (path_dirname X projectDir) dist_dir @ [CHR 0x22]"

text \<open>
  Node's \<^verbatim>\<open>path.relative\<close> throws a \<^verbatim>\<open>TypeError\<close> when its argument is not a string,
  which is what happens in the log line of \<^verbatim>\<open>handleStaticServer\<close> when \<^verbatim>\<open>dist\<close> (the
  \<^verbatim>\<open>--dir\<close> flag or \<^verbatim>\<open>devConfig.publish\<close>) is a truthy value that is not a string. Node
  appends the type of the value it received to the message; the model keeps the fixed part.
\<close>

definition path_arg_message :: string where
  "path_arg_message =
     ''The '' @ [CHR 0x22] @ ''to'' @ [CHR 0x22] @ '' argument must be of type string.''"

definition log_if :: "bool \<Rightarrow> string \<Rightarrow> unit io" where
  "log_if b s = (if b then log s else ret ())"

definition handleStaticServer :: "externals \<Rightarrow> jsobj \<Rightarrow> jsobj \<Rightarrow> string \<Rightarrow> jsobj io" where
  "handleStaticServer X devConfig options projectDir =
     io_bind (lift (validateNumberProperty X devConfig ''staticServerPort'')) (\<lambda>_.
     io_bind (if truthy (field options ''dir'') then log (dir_flag_message X)
              else log_if (field devConfig ''framework'' = JStr ''#static'')
                     (static_framework_message X)) (\<lambda>_.
     io_bind (log_if (truthy (field devConfig ''targetPort''))
                (ignoring_targetPort_message X)) (\<lambda>_.
     io_bind (if truthy (field options ''dir'') then ret (field options ''dir'')
              else if truthy (field devConfig ''publish'') then ret (field devConfig ''publish'')
              else getDefaultDist X) (\<lambda>dist_dir.
     io_bind (case dist_dir of
                JStr d \<Rightarrow> log (running_static_message X projectDir d)
              | _ \<Rightarrow> throw (TypeError path_arg_message)) (\<lambda>_.
     io_bind (getStaticServerPort X devConfig) (\<lambda>static_port.
       ret ((if truthy (field devConfig ''command'')
             then [''command'' \<mapsto> field devConfig ''command''] else Map.empty)
            ++ [''useStaticServer'' \<mapsto> JBool True,
                ''frameworkPort'' \<mapsto> JNum static_port,
                ''dist'' \<mapsto> dist_dir])))))))"

section \<open>Framework detection\<close>

definition pluginsToAlwaysInstall :: "string set" where
  "pluginsToAlwaysInstall = {''@netlify/plugin-nextjs''}"

text \<open>\<^verbatim>\<open>getPluginsToAutoInstall\<close>: both parameters default to the empty array.\<close>

definition getPluginsToAutoInstall :: "string list option \<Rightarrow> string list option \<Rightarrow> string list" where
  "getPluginsToAutoInstall pluginsInstalled pluginsRecommended =
     foldl (\<lambda>acc plugin.
              if plugin \<in> set (case pluginsInstalled of None \<Rightarrow> [] | Some ps \<Rightarrow> ps)
                   \<and> plugin \<notin> pluginsToAlwaysInstall
              then acc else acc @ [plugin])
           [] (case pluginsRecommended of None \<Rightarrow> [] | Some ps \<Rightarrow> ps)"

definition opt_string :: "string option \<Rightarrow> jsval" where
  "opt_string s = (case s of None \<Rightarrow> Undefined | Some c \<Rightarrow> JStr c)"

definition getSettingsFromDetectedSettings :: "Settings \<Rightarrow> jsobj" where
  "getSettingsFromDetectedSettings settings =
     [''command'' \<mapsto> opt_string (devCommand settings),
      ''frameworkPort'' \<mapsto> frameworkPort settings,
      ''dist'' \<mapsto> dist settings,
      ''framework'' \<mapsto> JStr (fw_name (framework settings)),
      ''env'' \<mapsto> env settings,
      ''pollingStrategies'' \<mapsto> pollingStrategies settings,
      ''plugins'' \<mapsto> JArr (map JStr (getPluginsToAutoInstall
                       (plugins_from_config_file settings) (plugins_recommended settings)))]"

text \<open>A string option inside a template literal.\<close>

definition interpolate :: "string option \<Rightarrow> string" where
  "interpolate s = (case s of None \<Rightarrow> ''undefined'' | Some c \<Rightarrow> c)"

text \<open>\<^verbatim>\<open>formatSettingsArrForInquirer\<close>. The \<^verbatim>\<open>value\<close> of an option is the setting itself
  with an added \<^verbatim>\<open>commands\<close> property, which nothing here reads.\<close>

definition formatSettingsArrForInquirer :: "externals \<Rightarrow> Settings list \<Rightarrow> inquirerOption list" where
  "formatSettingsArrForInquirer X settings =
     map (\<lambda>setting.
            \<lparr>opt_name = ''['' @ yellow X (fw_name (framework setting)) @ ''] ''
                          @ quote (interpolate (devCommand setting)),
             opt_value = setting,
             opt_short = name setting @ ''-'' @ interpolate (devCommand setting)\<rparr>)
         settings"

definition selection_hint_message :: "externals \<Rightarrow> Settings \<Rightarrow> string" where
  "selection_hint_message X chosenSettings =
     ''Add '' @ formatProperty X (''framework = '' @ [CHR 0x22] @ fw_id (framework chosenSettings)
                                   @ [CHR 0x22])
       @ '' to the [dev] section of your netlify.toml to avoid this selection prompt next time''"

definition in_workspace :: "externals \<Rightarrow> Project \<Rightarrow> Settings \<Rightarrow> bool" where
  "in_workspace X project setting =
     (if (case workspace project of None \<Rightarrow> False | Some isRoot \<Rightarrow> \<not> isRoot)
      then prefix (path_join X (jsWorkspaceRoot project)
                     (case packagePath setting of None \<Rightarrow> [] | Some pp \<Rightarrow> pp))
                  (cwd X)
      else True)"

definition has_devCommand :: "Settings \<Rightarrow> bool" where
  "has_devCommand setting = truthy (opt_string (devCommand setting))"

text \<open>
  \<^verbatim>\<open>detectFrameworkSettings\<close>: \<open>None\<close> is the \<^verbatim>\<open>undefined\<close> the function returns when no
  setting is left. With several settings the user chooses; the list the prompt shows
  while the user types (\<^verbatim>\<open>filterSettings\<close>) only narrows what is displayed.
\<close>

definition detectFrameworkSettings :: "externals \<Rightarrow> Project \<Rightarrow> jsobj option io" where
  "detectFrameworkSettings X project w =
     (let projectSettings = buildSettings project;
          w1 = w @ [GetBuildSettings];
          settings = filter has_devCommand (filter (in_workspace X project) projectSettings)
      in if length settings = 1 then (Inr (Some (getSettingsFromDetectedSettings (hd settings))), w1)
         else if length settings > 1 then
           (let chosenSettings = prompt X (formatSettingsArrForInquirer X settings);
                w2 = w1 @ [Prompt, Log (selection_hint_message X chosenSettings)]
            in (Inr (Some (getSettingsFromDetectedSettings chosenSettings)), w2))
         else (Inr None, w1))"

section \<open>Custom, merged and forced settings\<close>

definition hasCommandAndTargetPort :: "jsobj \<Rightarrow> jsval" where
  "hasCommandAndTargetPort devConfig =
     js_and (field devConfig ''command'') (field devConfig ''targetPort'')"

definition custom_required_message :: "externals \<Rightarrow> string" where
  "custom_required_message X =
     formatProperty X ''command'' @ '' and '' @ formatProperty X ''targetPort''
       @ '' properties are required when '' @ formatProperty X ''framework''
       @ '' is set to '' @ formatValue X ''#custom''"

definition handleCustomFramework :: "externals \<Rightarrow> jsobj \<Rightarrow> jsobj io" where
  "handleCustomFramework X devConfig =
     (if \<not> truthy (hasCommandAndTargetPort devConfig)
      then throw (Error (custom_required_message X))
      else
        io_bind (if truthy (field devConfig ''publish'') then ret (field devConfig ''publish'')
                 else getDefaultDist X) (\<lambda>dist_dir.
          ret [''command'' \<mapsto> field devConfig ''command'',
               ''frameworkPort'' \<mapsto> field devConfig ''targetPort'',
               ''dist'' \<mapsto> dist_dir,
               ''framework'' \<mapsto> JStr ''#custom'',
               ''pollingStrategies'' \<mapsto> js_or (field devConfig ''pollingStrategies'') (JArr [])]))"

text \<open>
  \<^verbatim>\<open>mergeSettings\<close>: \<open>None\<close> is an \<^verbatim>\<open>undefined\<close> argument, for which the parameter's
  default \<^verbatim>\<open>{}\<close> is taken; the destructuring default of \<^verbatim>\<open>pollingStrategies\<close> applies
  when the property reads \<^verbatim>\<open>undefined\<close>.
\<close>

definition mergeSettings :: "externals \<Rightarrow> jsobj \<Rightarrow> jsobj option \<Rightarrow> jsobj io" where
  "mergeSettings X devConfig frameworkSettings =
     (let fs = (case frameworkSettings of None \<Rightarrow> Map.empty | Some s \<Rightarrow> s);
          frameworkCommand = field fs ''command'';
          frameworkDetectedPort = field fs ''frameworkPort'';
          polling = (if field fs ''pollingStrategies'' = Undefined then JArr []
                     else field fs ''pollingStrategies'');
          command = js_or (field devConfig ''command'') frameworkCommand;
          framework_port = js_or (field devConfig ''targetPort'') frameworkDetectedPort;
          useStaticServer = \<not> truthy (js_and command framework_port)
      in
        io_bind (if useStaticServer
                 then io_bind (getStaticServerPort X devConfig) (\<lambda>p. ret (JNum p))
                 else ret framework_port) (\<lambda>port_value.
        io_bind (if truthy (field devConfig ''publish'') then ret (field devConfig ''publish'')
                 else if truthy (field fs ''dist'') then ret (field fs ''dist'')
                 else getDefaultDist X) (\<lambda>dist_dir.
          ret [''command'' \<mapsto> command,
               ''frameworkPort'' \<mapsto> port_value,
               ''dist'' \<mapsto> dist_dir,
               ''framework'' \<mapsto> field fs ''framework'',
               ''env'' \<mapsto> field fs ''env'',
               ''pollingStrategies'' \<mapsto> polling,
               ''useStaticServer'' \<mapsto> JBool useStaticServer])))"

definition getFramework_io :: "externals \<Rightarrow> jsval \<Rightarrow> Project \<Rightarrow> Framework io" where
  "getFramework_io X fw project w = (getFramework X fw project, w @ [GetFramework fw])"

definition getSettings_io :: "externals \<Rightarrow> Framework \<Rightarrow> Project \<Rightarrow> string \<Rightarrow> Settings io" where
  "getSettings_io X fw project base w = (Inr (getSettings X fw project base), w @ [GetSettings])"

definition handleForcedFramework :: "externals \<Rightarrow> jsobj \<Rightarrow> Project \<Rightarrow> jsobj io" where
  "handleForcedFramework X devConfig project =
     io_bind (getFramework_io X (field devConfig ''framework'') project) (\<lambda>fw.
     io_bind (getSettings_io X fw project []) (\<lambda>settings.
       mergeSettings X devConfig (Some (getSettingsFromDetectedSettings settings))))"

section \<open>The settings resolver\<close>

definition no_app_server_message :: "externals \<Rightarrow> string" where
  "no_app_server_message X = NETLIFYDEVWARN X @ '' No app server detected. Using simple static server''"

definition port_error :: "externals \<Rightarrow> string" where
  "port_error X = ''Could not acquire required '' @ formatProperty X ''port''"

definition getInternalFunctionsDir_io :: "externals \<Rightarrow> string \<Rightarrow> jsval io" where
  "getInternalFunctionsDir_io X base w =
     (Inr (getInternalFunctionsDir X base), w @ [GetInternalFunctionsDir base])"

text \<open>The branch of \<^verbatim>\<open>detectServerSettings\<close> for \<^verbatim>\<open>framework = '#auto'\<close>, with the
  assignment of \<^verbatim>\<open>settings.plugins\<close> that ends it.\<close>

definition auto_branch :: "externals \<Rightarrow> jsobj \<Rightarrow> jsobj \<Rightarrow> Project \<Rightarrow> string \<Rightarrow> jsobj io" where
  "auto_branch X devConfig options project projectDir =
     (let runDetection = \<not> truthy (hasCommandAndTargetPort devConfig) in
      io_bind (if runDetection then detectFrameworkSettings X project else ret None)
        (\<lambda>frameworkSettings.
      io_bind (case frameworkSettings of
                 None \<Rightarrow>
                   io_bind (log (no_app_server_message X)) (\<lambda>_.
                     handleStaticServer X devConfig options projectDir)
               | Some fs \<Rightarrow>
                   io_bind (lift (validateFrameworkConfig X devConfig)) (\<lambda>_.
                     mergeSettings X devConfig (Some fs)))
        (\<lambda>settings.
          ret (settings(''plugins'' \<mapsto>
                 (case frameworkSettings of None \<Rightarrow> Undefined | Some fs \<Rightarrow> field fs ''plugins''))))))"

text \<open>The first part of \<^verbatim>\<open>detectServerSettings\<close>: the choice of the branch that
  computes \<^verbatim>\<open>settings\<close>.\<close>

definition resolve_branch :: "externals \<Rightarrow> jsobj \<Rightarrow> jsobj \<Rightarrow> Project \<Rightarrow> string \<Rightarrow> jsobj io" where
  "resolve_branch X devConfig options project projectDir =
     (if truthy (field options ''dir'') \<or> field devConfig ''framework'' = JStr ''#static''
      then handleStaticServer X devConfig options projectDir
      else if field devConfig ''framework'' = JStr ''#auto''
      then auto_branch X devConfig options project projectDir
      else if field devConfig ''framework'' = JStr ''#custom''
      then io_bind (lift (validateFrameworkConfig X devConfig)) (\<lambda>_.
             handleCustomFramework X devConfig)
      else if truthy (field devConfig ''framework'')
      then io_bind (lift (validateFrameworkConfig X devConfig)) (\<lambda>_.
             handleForcedFramework X devConfig project)
      else ret Map.empty)"

text \<open>The second part: from the validation of the configured port to the returned
  object. A falsy operand of \<^verbatim>\<open>&&\<close> spreads to nothing.\<close>

definition complete_settings :: "externals \<Rightarrow> jsobj \<Rightarrow> string \<Rightarrow> jsobj \<Rightarrow> jsobj io" where
  "complete_settings X devConfig projectDir settings =
     io_bind (lift (validateConfiguredPort X devConfig (field settings ''frameworkPort''))) (\<lambda>_.
     io_bind (acquirePort_io X (field devConfig ''port'') DEFAULT_PORT (port_error X))
       (\<lambda>acquiredPort.
     let functionsDir = js_or (field devConfig ''functions'') (field settings ''functions'') in
     io_bind (getInternalFunctionsDir_io X projectDir) (\<lambda>internalFunctionsDir.
     let shouldStartFunctionsServer = truthy (js_or functionsDir internalFunctionsDir) in
     io_bind (if shouldStartFunctionsServer
              then io_bind (getPort_io X (js_or (field devConfig ''functionsPort'') (JNum 0)))
                     (\<lambda>p. ret [''functionsPort'' \<mapsto> JNum p])
              else ret Map.empty) (\<lambda>functions_part.
     io_bind (if truthy (field devConfig ''https'')
              then io_bind (readHttpsSettings X (field devConfig ''https''))
                     (\<lambda>h. ret [''https'' \<mapsto> h])
              else ret Map.empty) (\<lambda>https_part.
       ret (settings
            ++ [''port'' \<mapsto> JNum acquiredPort,
                ''jwtSecret'' \<mapsto> js_or (field devConfig ''jwtSecret'') (JStr ''secret''),
                ''jwtRolePath'' \<mapsto> js_or (field devConfig ''jwtRolePath'')
                                      (JStr ''app_metadata.authorization.roles''),
                ''functions'' \<mapsto> functionsDir]
            ++ functions_part ++ https_part))))))"

definition detectServerSettings :: "externals \<Rightarrow> jsobj \<Rightarrow> jsobj \<Rightarrow> Project \<Rightarrow> string \<Rightarrow> jsobj io" where
  "detectServerSettings X devConfig options project projectDir =
     io_bind (lift (validateStringProperty X devConfig ''framework'')) (\<lambda>_.
     io_bind (resolve_branch X devConfig options project projectDir) (\<lambda>settings.
       complete_settings X devConfig projectDir settings))"

section \<open>The static-server resolution alone\<close>

text \<open>
  The specification's static-server resolution (step 1 of the resolver followed by what
  happens after the branch): the static server settings, completed with the ports, the
  JWT settings, the functions and the HTTPS material. It is what \<^verbatim>\<open>detectServerSettings\<close>
  does for \<^verbatim>\<open>--dir\<close> and for \<^verbatim>\<open>#static\<close>.
\<close>

definition static_server_resolution :: "externals \<Rightarrow> jsobj \<Rightarrow> jsobj \<Rightarrow> string \<Rightarrow> jsobj io" where
  "static_server_resolution X devConfig options projectDir =
     io_bind (handleStaticServer X devConfig options projectDir) (\<lambda>settings.
       complete_settings X devConfig projectDir settings)"

text \<open>A result whose settings, if any, carry the property \<^verbatim>\<open>plugins\<close> with the given value.\<close>

definition with_plugins :: "jsval \<Rightarrow> error + jsobj \<Rightarrow> error + jsobj" where
  "with_plugins v r = (case r of Inl e \<Rightarrow> Inl e | Inr s \<Rightarrow> Inr (s(''plugins'' \<mapsto> v)))"

text \<open>A computation whose result and port requests depend on the trace so far only
  through the port requests in it.\<close>

definition same_outcome :: "'a io \<Rightarrow> bool" where
  "same_outcome m \<longleftrightarrow>
     (\<forall>w v. port_events w = port_events v \<longrightarrow>
        fst (m w) = fst (m v) \<and> port_events (snd (m w)) = port_events (snd (m v)))"

section \<open>Telemetry\<close>

text \<open>
  Modelled from the spec: the telemetry reporter and the handling of the flags
  \<^verbatim>\<open>--telemetry-enable\<close> and \<^verbatim>\<open>--telemetry-disable\<close>, which are not among the sources; only
  their integration test is. The reporter posts usage events to the tracking endpoint,
  gated by the opt-in flag of the user-level settings, with the per-install anonymous
  identifier and a user agent made of the name and version of the CLI.
\<close>

record package =
  pkg_name :: string
  pkg_version :: string

record track_request =
  http_method :: string
  url_path :: string
  user_agent :: string
  event_name :: string
  anonymousId :: string
  properties :: "(string \<times> string) list"

text \<open>
  Modelled from the spec: the user-level settings, which the missing code persists. They
  hold the opt-in flag and the random digits of the anonymous identifier, absent before
  the first run.
\<close>

record user_settings =
  telemetry_enabled :: bool
  anonymous_digits :: "nat list option"

text \<open>
  Modelled from the spec: the anonymous identifier is a version-4 UUID string. Such a
  string has 32 hexadecimal digits in groups of 8, 4, 4, 4 and 12; the first digit of the
  third group is 4 and the first digit of the fourth group is 8, 9, a or b; the other
  digits are random.
\<close>

definition hex_digit :: "nat \<Rightarrow> char" where
  "hex_digit n = ''0123456789abcdef'' ! (n mod 16)"

definition nibble :: "nat list \<Rightarrow> nat \<Rightarrow> nat" where
  "nibble ns i = (if i < length ns then ns ! i else 0)"

definition uuid_v4 :: "nat list \<Rightarrow> string" where
  "uuid_v4 ns =
     map (\<lambda>i. hex_digit (nibble ns i)) [0..<8] @ ''-''
       @ map (\<lambda>i. hex_digit (nibble ns i)) [8..<12] @ ''-''
       @ CHR ''4'' # map (\<lambda>i. hex_digit (nibble ns i)) [13..<16] @ ''-''
       @ hex_digit (8 + nibble ns 16 mod 4) # map (\<lambda>i. hex_digit (nibble ns i)) [17..<20] @ ''-''
       @ map (\<lambda>i. hex_digit (nibble ns i)) [20..<32]"

text \<open>The test reads the version of the identifier with \<^verbatim>\<open>version\<close> of the \<^verbatim>\<open>uuid\<close>
  library: the value of the digit at index 14 of a well-formed UUID string.\<close>

definition is_hex :: "char \<Rightarrow> bool" where
  "is_hex c \<longleftrightarrow> c \<in> set ''0123456789abcdefABCDEF''"

definition valid_uuid :: "string \<Rightarrow> bool" where
  "valid_uuid s \<longleftrightarrow>
     length s = 36
     \<and> list_all is_hex (take 8 s) \<and> s ! 8 = CHR ''-''
     \<and> list_all is_hex (take 4 (drop 9 s)) \<and> s ! 13 = CHR ''-''
     \<and> s ! 14 \<in> set ''12345'' \<and> list_all is_hex (take 3 (drop 15 s)) \<and> s ! 18 = CHR ''-''
     \<and> s ! 19 \<in> set ''89abAB'' \<and> list_all is_hex (take 3 (drop 20 s)) \<and> s ! 23 = CHR ''-''
     \<and> list_all is_hex (drop 24 s)"

definition hex_value :: "char \<Rightarrow> nat" where
  "hex_value c =
     (case map_of (zip ''0123456789abcdefABCDEF''
               [0, 1, 2, 3, 4, 5, 6, 7, 8, 9, 10, 11, 12, 13, 14, 15, 10, 11, 12, 13, 14, 15]) c of
        None \<Rightarrow> 0
      | Some n \<Rightarrow> n)"

definition uuidVersion :: "string \<Rightarrow> nat option" where
  "uuidVersion s = (if valid_uuid s then Some (hex_value (s ! 14)) else None)"

text \<open>
  Modelled from the spec: the identifier is loaded from the user-level settings, or
  generated from fresh random digits on the first run.
\<close>

definition load_or_generate :: "nat list \<Rightarrow> user_settings \<Rightarrow> user_settings" where
  "load_or_generate fresh c =
     (case anonymous_digits c of
        None \<Rightarrow> c\<lparr>anonymous_digits := Some fresh\<rparr>
      | Some ds \<Rightarrow> c)"

text \<open>
  Modelled from the spec: the reporter of the missing telemetry module. With the flag off
  it sends nothing; otherwise it sends one \<^verbatim>\<open>POST\<close> request to \<^verbatim>\<open>/track\<close> whose body has the
  event, the anonymous identifier and the properties (the versions of the CLI and of
  Node, as the test expects), and whose user agent is \<^verbatim>\<open><name>/<version>\<close>.
\<close>

definition track :: "package \<Rightarrow> string \<Rightarrow> user_settings \<Rightarrow> string \<Rightarrow> track_request list" where
  "track pkg nodejsVersion c event =
     (if telemetry_enabled c then
        [\<lparr>http_method = ''POST'', url_path = ''/track'',
          user_agent = pkg_name pkg @ ''/'' @ pkg_version pkg,
          event_name = event,
          anonymousId = uuid_v4 (case anonymous_digits c of None \<Rightarrow> [] | Some ds \<Rightarrow> ds),
          properties = [(''cliVersion'', pkg_version pkg), (''nodejsVersion'', nodejsVersion)]\<rparr>]
      else [])"

datatype telemetry_flag = TelemetryEnable | TelemetryDisable

text \<open>
  Modelled from the spec: an invocation of the CLI with one of the two flags, which is
  handled by code that is not among the sources. The flag is stored in the user-level
  settings first. With \<^verbatim>\<open>--telemetry-disable\<close> whatever events the invocation goes on to
  report pass through the reporter; with \<^verbatim>\<open>--telemetry-enable\<close> the invocation reports
  the event \<^verbatim>\<open>cli:user_telemetryEnabled\<close>. The result is the requests sent and the
  settings to persist.
\<close>

definition invoke_cli ::
  "package \<Rightarrow> string \<Rightarrow> nat list \<Rightarrow> user_settings \<Rightarrow> telemetry_flag \<Rightarrow> string list
     \<Rightarrow> track_request list \<times> user_settings" where
  "invoke_cli pkg nodejsVersion fresh c flag events =
     (let loaded = load_or_generate fresh c in
      case flag of
        TelemetryDisable \<Rightarrow>
          (let off = loaded\<lparr>telemetry_enabled := False\<rparr>
           in (concat (map (track pkg nodejsVersion off) events), off))
      | TelemetryEnable \<Rightarrow>
          (let on = loaded\<lparr>telemetry_enabled := True\<rparr>
           in (track pkg nodejsVersion on ''cli:user_telemetryEnabled'', on)))"

section \<open>A concrete host\<close>

text \<open>The ports that the port requests of a trace were answered with: they are no
  longer free.\<close>

fun handed_out :: "event list \<Rightarrow> int list" where
  "handed_out [] = []"
| "handed_out (AcquirePort configuredPort defaultPort (Inr p) # w) = p # handed_out w"
| "handed_out (GetPort port (Inr p) # w) = p # handed_out w"
| "handed_out (e # w) = handed_out w"

text \<open>The first port from \<open>q\<close> upwards that is not taken; as many steps as there are
  taken ports always reach one.\<close>

fun first_free :: "int list \<Rightarrow> int \<Rightarrow> nat \<Rightarrow> int" where
  "first_free taken q 0 = q"
| "first_free taken q (Suc n) = (if q \<in> set taken then first_free taken (q + 1) n else q)"

text \<open>
  Modelled from the spec: \<^verbatim>\<open>acquirePort\<close> of \<^verbatim>\<open>./dev.mjs\<close>, which is not among the sources.
  The specification's port acquisition: a configured port is verified to be free and the
  call fails with the error message when it is occupied; without a configured port a free
  port is looked for starting from the default. \<open>busy\<close> are the ports occupied by
  others and \<open>h\<close> the port requests made so far.
\<close>

definition spec_acquirePort ::
  "int list \<Rightarrow> event list \<Rightarrow> jsval \<Rightarrow> int \<Rightarrow> string \<Rightarrow> error + int" where
  "spec_acquirePort busy h configuredPort defaultPort errorMessage =
     (let taken = busy @ handed_out h in
      if truthy configuredPort then
        (case configuredPort of
           JNum n \<Rightarrow> if n \<in> set taken then Inl (Error errorMessage) else Inr n
         | _ \<Rightarrow> Inl (Error errorMessage))
      else Inr (first_free taken defaultPort (length taken)))"

definition bad_port_message :: string where
  "bad_port_message = ''options.port should be >= 0 and < 65536.''"

text \<open>
  The \<^verbatim>\<open>get-port\<close> library as documented: the preferred port when it is free and has not
  been handed out before, a free port otherwise (from \<open>spare\<close> upwards), also for the
  preferred port 0; a port that is not a number from 0 to 65535 is rejected with a
  \<^verbatim>\<open>RangeError\<close>.
\<close>

definition preferred_or_spare :: "int list \<Rightarrow> int \<Rightarrow> event list \<Rightarrow> jsval \<Rightarrow> error + int" where
  "preferred_or_spare busy spare h port =
     (let taken = busy @ handed_out h in
      case port of
        JNum n \<Rightarrow>
          if n < 0 \<or> 65535 < n then Inl (RangeError bad_port_message)
          else if n \<noteq> 0 \<and> n \<notin> set taken then Inr n
          else Inr (first_free taken spare (length taken))
      | _ \<Rightarrow> Inl (RangeError bad_port_message))"

definition gatsby :: Framework where
  "gatsby = \<lparr>fw_id = ''gatsby'', fw_name = ''Gatsby''\<rparr>"

definition gatsby_settings :: Settings where
  "gatsby_settings =
     \<lparr>name = ''Gatsby'', devCommand = Some ''gatsby develop'', dist = JStr ''public'',
      env = JObj [(''GATSBY_LOGGER'', JStr ''yurnalist'')], framework = gatsby,
      frameworkPort = JNum 8000, plugins_from_config_file = Some [],
      plugins_recommended = Some [''@netlify/plugin-gatsby''],
      pollingStrategies = JArr [JStr ''TCP'', JStr ''HTTP''], packagePath = None\<rparr>"

definition enoent :: "string \<Rightarrow> string" where
  "enoent file = ''ENOENT: no such file or directory, open '' @ quote file"

text \<open>A host without colours, whose occupied ports, first spare port and readable files
  are given.\<close>

definition plain_host :: "int list \<Rightarrow> int \<Rightarrow> (string \<rightharpoonup> string) \<Rightarrow> externals" where
  "plain_host busy spare files =
     \<lparr>magenta = (\<lambda>s. s), green = (\<lambda>s. s), yellow = (\<lambda>s. s),
      NETLIFYDEVWARN = ''Warning:'', EOL = [CHR 0x0A], cwd = ''/site'',
      path_join = (\<lambda>a b. if b = [] then a else a @ ''/'' @ b),
      path_resolve = (\<lambda>p. ''/site/'' @ p),
      path_dirname = (\<lambda>p. ''/''),
      path_relative = (\<lambda>a b. b),
      readFile = (\<lambda>f. case files f of None \<Rightarrow> Inl (enoent f) | Some content \<Rightarrow> Inr content),
      getPort = preferred_or_spare busy spare,
      acquirePort = spec_acquirePort busy,
      getInternalFunctionsDir = (\<lambda>base. Undefined),
      getFramework = (\<lambda>fw project. if fw = JStr ''gatsby'' then Inr gatsby
                                      else Inl (Error ''Invalid framework'')),
      getSettings = (\<lambda>fw project base. gatsby_settings),
      prompt = (\<lambda>options. opt_value (hd options))\<rparr>"

definition pem_options :: jsval where
  "pem_options = JObj [(''keyFile'', JStr ''key.pem''), (''certFile'', JStr ''cert.pem'')]"

definition quiet_host :: externals where
  "quiet_host = plain_host [] 49152 Map.empty"

definition empty_project :: Project where
  "empty_project = \<lparr>buildSettings = [], workspace = None, jsWorkspaceRoot = ''/site''\<rparr>"

definition static_config :: jsobj where
  "static_config = [''framework'' \<mapsto> JStr ''#static'']"

definition gatsby_project :: Project where
  "gatsby_project = \<lparr>buildSettings = [gatsby_settings], workspace = None, jsWorkspaceRoot = ''/site''\<rparr>"

definition custom_same_ports_config :: jsobj where
  "custom_same_ports_config =
     [''framework'' \<mapsto> JStr ''#custom'', ''port'' \<mapsto> JNum 3000, ''targetPort'' \<mapsto> JNum 3000]"

definition custom_no_command_config :: jsobj where
  "custom_no_command_config = [''framework'' \<mapsto> JStr ''#custom'', ''targetPort'' \<mapsto> JNum 3000]"

definition static_same_ports_config :: jsobj where
  "static_same_ports_config =
     [''framework'' \<mapsto> JStr ''#static'', ''port'' \<mapsto> JNum 5000, ''targetPort'' \<mapsto> JNum 5000]"

definition auto_same_ports_config :: jsobj where
  "auto_same_ports_config =
     [''framework'' \<mapsto> JStr ''#auto'', ''port'' \<mapsto> JNum 5000, ''targetPort'' \<mapsto> JNum 5000]"

definition auto_config :: jsobj where
  "auto_config = [''framework'' \<mapsto> JStr ''#auto'']"

definition auto_full_config :: jsobj where
  "auto_full_config =
     [''framework'' \<mapsto> JStr ''#auto'', ''command'' \<mapsto> JStr ''npm start'',
      ''targetPort'' \<mapsto> JNum 3000]"

definition functions_port_config :: jsobj where
  "functions_port_config =
     [''framework'' \<mapsto> JStr ''#static'', ''functions'' \<mapsto> JStr ''functions'',
      ''functionsPort'' \<mapsto> JNum 9999]"

definition port_9999_taken_host :: externals where
  "port_9999_taken_host = plain_host [9999] 49152 Map.empty"

definition portless_project :: Project where
  "portless_project =
     \<lparr>buildSettings = [gatsby_settings\<lparr>frameworkPort := Undefined\<rparr>], workspace = None,
      jsWorkspaceRoot = ''/site''\<rparr>"

definition portless_settings :: jsobj where
  "portless_settings = getSettingsFromDetectedSettings (gatsby_settings\<lparr>frameworkPort := Undefined\<rparr>)"

definition port_4000_taken_host :: externals where
  "port_4000_taken_host = plain_host [4000] 49152 Map.empty"

definition auto_port_4000_config :: jsobj where
  "auto_port_4000_config = [''framework'' \<mapsto> JStr ''#auto'', ''staticServerPort'' \<mapsto> JNum 4000]"

definition dir_options :: jsobj where
  "dir_options = [''dir'' \<mapsto> JStr ''public'']"

definition functions_port_70000_config :: jsobj where
  "functions_port_70000_config =
     [''framework'' \<mapsto> JStr ''#static'', ''functions'' \<mapsto> JStr ''functions'',
      ''functionsPort'' \<mapsto> JNum 70000]"

section \<open>Basic facts\<close>

lemma io_bind_Inr:
  "io_bind m f w = (Inr y, w') \<longleftrightarrow> (\<exists>x w1. m w = (Inr x, w1) \<and> f x w1 = (Inr y, w'))"
  by (auto simp: io_bind_def split: prod.splits sum.splits)

lemma ret_eq: "ret x w = (r, w') \<longleftrightarrow> r = Inr x \<and> w' = w"
  by (auto simp: ret_def)

lemma throw_eq: "throw e w = (r, w') \<longleftrightarrow> r = Inl e \<and> w' = w"
  by (auto simp: throw_def)

lemma lift_eq: "lift v w = (r, w') \<longleftrightarrow> r = v \<and> w' = w"
  by (auto simp: lift_def)

lemma log_eq: "log m w = (r, w') \<longleftrightarrow> r = Inr () \<and> w' = w @ [Log m]"
  by (auto simp: log_def)

lemma log_if_eq:
  "log_if b m w = (r, w') \<longleftrightarrow> r = Inr () \<and> w' = (if b then w @ [Log m] else w)"
  by (auto simp: log_if_def log_def ret_def)

lemma getDefaultDist_eq:
  "getDefaultDist X w = (r, w') \<longleftrightarrow>
     r = Inr (JStr (cwd X)) \<and> w' = w @ map Log (default_dist_messages X)"
  by (auto simp: getDefaultDist_def)

lemma port_events_append [simp]: "port_events (w @ v) = port_events w @ port_events v"
  by (simp add: port_events_def)

lemma port_events_Log [simp]: "port_events (Log m # w) = port_events w"
  by (simp add: port_events_def)

lemma port_events_Nil [simp]: "port_events [] = []"
  by (simp add: port_events_def)

lemma port_events_map_Log [simp]: "port_events (map Log ms) = []"
  by (induction ms) simp_all

lemma port_events_Cons:
  "port_events (e # w) = (if is_port_event e then e # port_events w else port_events w)"
  by (simp add: port_events_def)

text \<open>Unfolding everything a run on a concrete configuration goes through.\<close>

lemmas run_defs = detectServerSettings_def resolve_branch_def complete_settings_def
  handleStaticServer_def getStaticServerPort_def acquirePort_io_def getPort_io_def
  getInternalFunctionsDir_io_def getDefaultDist_def io_bind_def ret_def throw_def lift_def
  log_def log_if_def validateStringProperty_def validateNumberProperty_def
  validateConfiguredPort_def validateFrameworkConfig_def field_def js_or_def js_and_def
  DEFAULT_PORT_def DEFAULT_STATIC_PORT_def port_events_Cons

lemmas host_defs = quiet_host_def plain_host_def spec_acquirePort_def preferred_or_spare_def
  Let_def

text \<open>What \<^verbatim>\<open>handleStaticServer\<close> returns when it returns: the static port is the one
  \<^verbatim>\<open>acquirePort\<close> gave for the configured static server port and the default 3999.\<close>

lemma handleStaticServer_Inr:
  assumes "handleStaticServer X devConfig options projectDir w = (Inr s, w')"
  shows "\<exists>p d. acquirePort X (port_events w) (field devConfig ''staticServerPort'')
                  DEFAULT_STATIC_PORT static_port_error = Inr p
           \<and> s = (if truthy (field devConfig ''command'')
                  then [''command'' \<mapsto> field devConfig ''command''] else Map.empty)
                 ++ [''useStaticServer'' \<mapsto> JBool True, ''frameworkPort'' \<mapsto> JNum p,
                     ''dist'' \<mapsto> d]"
  using assms
  unfolding handleStaticServer_def getStaticServerPort_def
  by (auto simp: io_bind_Inr ret_eq throw_eq lift_eq log_eq log_if_eq getDefaultDist_eq
        acquirePort_io_def split: if_splits jsval.splits)

text \<open>The second part of \<^verbatim>\<open>detectServerSettings\<close> sets six properties and keeps the
  others as the branch computed them.\<close>

lemma complete_settings_keeps:
  assumes "complete_settings X devConfig projectDir settings w = (Inr s, w')"
    and "k \<notin> {''port'', ''jwtSecret'', ''jwtRolePath'', ''functions'', ''functionsPort'', ''https''}"
  shows "s k = settings k"
  using assms
  by (auto simp: complete_settings_def io_bind_Inr ret_eq Let_def map_add_def split: if_splits)

lemma complete_settings_jwt:
  assumes "complete_settings X devConfig projectDir settings w = (Inr s, w')"
  shows "s ''jwtSecret'' = Some (js_or (field devConfig ''jwtSecret'') (JStr ''secret''))"
    and "s ''jwtRolePath'' =
           Some (js_or (field devConfig ''jwtRolePath'') (JStr ''app_metadata.authorization.roles''))"
  using assms
  by (auto simp: complete_settings_def io_bind_Inr ret_eq Let_def map_add_def split: if_splits)

lemma detectServerSettings_Inr:
  assumes "fst (detectServerSettings X devConfig options project projectDir w) = Inr s"
  obtains settings w1 w2 w' where
    "resolve_branch X devConfig options project projectDir w = (Inr settings, w1)"
    "complete_settings X devConfig projectDir settings w1 = (Inr s, w')"
proof -
  obtain w' where "detectServerSettings X devConfig options project projectDir w = (Inr s, w')"
    using assms by (cases "detectServerSettings X devConfig options project projectDir w") simp
  then show thesis
    using that by (auto simp: detectServerSettings_def io_bind_Inr lift_eq)
qed

lemma static_config_run:
  "fst (detectServerSettings quiet_host static_config Map.empty empty_project ''/site'' []) =
     Inr [''useStaticServer'' \<mapsto> JBool True, ''frameworkPort'' \<mapsto> JNum 3999,
          ''dist'' \<mapsto> JStr ''/site'', ''port'' \<mapsto> JNum 8888,
          ''jwtSecret'' \<mapsto> JStr ''secret'',
          ''jwtRolePath'' \<mapsto> JStr ''app_metadata.authorization.roles'',
          ''functions'' \<mapsto> Undefined]"
  by (simp add: run_defs host_defs static_config_def)

text \<open>
  The outcome of the second part of \<^verbatim>\<open>detectServerSettings\<close> once the configured port has
  passed its check and the port of the dev server is acquired: it is decided by the
  answer of \<^verbatim>\<open>get-port\<close> (when a functions server is to be started) and by the reading of
  the HTTPS files (when they are configured), and by nothing else.
\<close>

lemma readHttpsSettings_fst:
  "fst (readHttpsSettings X options w) = fst (readHttpsSettings X options [])"
  by (simp add: readHttpsSettings_def io_bind_def readFile_io_def throw_def ret_def
        split: jsval.splits sum.splits)

lemma truthy_js_or: "truthy (js_or a b) \<longleftrightarrow> truthy a \<or> truthy b"
  by (simp add: js_or_def)

lemma https_step:
  "fst (io_bind (if truthy hs then io_bind (readHttpsSettings X hs) (\<lambda>h. ret [''https'' \<mapsto> h])
                 else ret Map.empty) (\<lambda>part. ret (g part)) v) =
     (case (if truthy hs then fst (readHttpsSettings X hs []) else Inr Undefined) of
        Inl e \<Rightarrow> Inl e
      | Inr m \<Rightarrow> Inr (g (if truthy hs then [''https'' \<mapsto> m] else Map.empty)))"
proof (cases "truthy hs")
  case False
  then show ?thesis by (simp add: io_bind_def ret_def)
next
  case True
  obtain r v' where run: "readHttpsSettings X hs v = (r, v')"
    by (cases "readHttpsSettings X hs v")
  have "fst (readHttpsSettings X hs []) = r"
    using readHttpsSettings_fst[of X hs v] run by simp
  then show ?thesis
    using True run by (cases r) (simp_all add: io_bind_def ret_def)
qed

lemma functions_step:
  "fst (io_bind (if b then io_bind (getPort_io X pref) (\<lambda>p. ret [''functionsPort'' \<mapsto> JNum p])
                 else ret Map.empty) k v) =
     (case (if b then getPort X (port_events v) pref else Inr 0) of
        Inl e \<Rightarrow> Inl e
      | Inr q \<Rightarrow> fst (k (if b then [''functionsPort'' \<mapsto> JNum q] else Map.empty)
                         (if b then v @ [GetPort pref (Inr q)] else v)))"
proof (cases b)
  case False
  then show ?thesis by (simp add: io_bind_def ret_def)
next
  case True
  then show ?thesis
    by (cases "getPort X (port_events v) pref") (simp_all add: io_bind_def ret_def getPort_io_def)
qed

lemma complete_settings_outcome:
  assumes "validateConfiguredPort X devConfig (field settings ''frameworkPort'') = Inr ()"
    and "acquirePort X (port_events w) (field devConfig ''port'') 8888 (port_error X) = Inr a"
  shows "fst (complete_settings X devConfig projectDir settings w) =
     (case (if truthy (field devConfig ''functions'') \<or> truthy (field settings ''functions'')
                 \<or> truthy (getInternalFunctionsDir X projectDir)
            then getPort X (port_events w @ [AcquirePort (field devConfig ''port'') 8888 (Inr a)])
                   (js_or (field devConfig ''functionsPort'') (JNum 0))
            else Inr 0) of
        Inl e \<Rightarrow> Inl e
      | Inr q \<Rightarrow>
          (case (if truthy (field devConfig ''https'')
                 then fst (readHttpsSettings X (field devConfig ''https'') [])
                 else Inr Undefined) of
             Inl e \<Rightarrow> Inl e
           | Inr m \<Rightarrow>
               Inr (settings
                    ++ [''port'' \<mapsto> JNum a,
                        ''jwtSecret'' \<mapsto> js_or (field devConfig ''jwtSecret'') (JStr ''secret''),
                        ''jwtRolePath'' \<mapsto> js_or (field devConfig ''jwtRolePath'')
                                              (JStr ''app_metadata.authorization.roles''),
                        ''functions'' \<mapsto> js_or (field devConfig ''functions'')
                                            (field settings ''functions'')]
                    ++ (if truthy (field devConfig ''functions'') \<or> truthy (field settings ''functions'')
                           \<or> truthy (getInternalFunctionsDir X projectDir)
                        then [''functionsPort'' \<mapsto> JNum q] else Map.empty)
                    ++ (if truthy (field devConfig ''https'') then [''https'' \<mapsto> m]
                        else Map.empty))))"
proof -
  have start: "complete_settings X devConfig projectDir settings w =
      io_bind (if truthy (field devConfig ''functions'') \<or> truthy (field settings ''functions'')
                    \<or> truthy (getInternalFunctionsDir X projectDir)
               then io_bind (getPort_io X (js_or (field devConfig ''functionsPort'') (JNum 0)))
                      (\<lambda>p. ret [''functionsPort'' \<mapsto> JNum p])
               else ret Map.empty)
        (\<lambda>functions_part.
           io_bind (if truthy (field devConfig ''https'')
                    then io_bind (readHttpsSettings X (field devConfig ''https''))
                           (\<lambda>h. ret [''https'' \<mapsto> h])
                    else ret Map.empty)
             (\<lambda>https_part.
                ret (settings
                     ++ [''port'' \<mapsto> JNum a,
                         ''jwtSecret'' \<mapsto> js_or (field devConfig ''jwtSecret'') (JStr ''secret''),
                         ''jwtRolePath'' \<mapsto> js_or (field devConfig ''jwtRolePath'')
                                               (JStr ''app_metadata.authorization.roles''),
                         ''functions'' \<mapsto> js_or (field devConfig ''functions'')
                                             (field settings ''functions'')]
                     ++ functions_part ++ https_part)))
        (w @ [AcquirePort (field devConfig ''port'') 8888 (Inr a),
              GetInternalFunctionsDir projectDir])"
    using assms
    by (simp add: complete_settings_def io_bind_def[of "lift _"] lift_def
          io_bind_def[of "acquirePort_io _ _ _ _"] acquirePort_io_def
          io_bind_def[of "getInternalFunctionsDir_io _ _"] getInternalFunctionsDir_io_def
          Let_def truthy_js_or DEFAULT_PORT_def)
  show ?thesis
    unfolding start functions_step https_step
    by (simp add: port_events_Cons split: sum.splits)
qed

lemma detectServerSettings_outcome:
  assumes "validateStringProperty X devConfig ''framework'' = Inr ()"
    and "fst (resolve_branch X devConfig options project projectDir w) = Inr settings"
  shows "fst (detectServerSettings X devConfig options project projectDir w) =
           fst (complete_settings X devConfig projectDir settings
                  (snd (resolve_branch X devConfig options project projectDir w)))"
proof -
  obtain w1 where "resolve_branch X devConfig options project projectDir w = (Inr settings, w1)"
    using assms(2) by (cases "resolve_branch X devConfig options project projectDir w") simp
  then show ?thesis
    using assms(1) by (simp add: detectServerSettings_def io_bind_def lift_def)
qed


lemma handleStaticServer_outcome:
  assumes "validateNumberProperty X devConfig ''staticServerPort'' = Inr ()"
    and "js_or (field options ''dir'') (js_or (field devConfig ''publish'') (JStr (cwd X))) = JStr d"
    and "acquirePort X (port_events w) (field devConfig ''staticServerPort'') 3999
           static_port_error = Inr p"
  shows "fst (handleStaticServer X devConfig options projectDir w) =
           Inr ((if truthy (field devConfig ''command'')
                 then [''command'' \<mapsto> field devConfig ''command''] else Map.empty)
                ++ [''useStaticServer'' \<mapsto> JBool True, ''frameworkPort'' \<mapsto> JNum p,
                    ''dist'' \<mapsto> JStr d])
         \<and> port_events (snd (handleStaticServer X devConfig options projectDir w)) =
             port_events w @ [AcquirePort (field devConfig ''staticServerPort'') 3999 (Inr p)]"
  using assms
  by (auto simp: handleStaticServer_def getStaticServerPort_def acquirePort_io_def io_bind_def
        lift_def log_def log_if_def ret_def getDefaultDist_def js_or_def DEFAULT_STATIC_PORT_def
        port_events_Cons split: if_splits)

lemma static_branch_runs:
  "fst (resolve_branch quiet_host static_config Map.empty empty_project ''/site'' []) =
     Inr [''useStaticServer'' \<mapsto> JBool True, ''frameworkPort'' \<mapsto> JNum 3999,
          ''dist'' \<mapsto> JStr ''/site'']"
  "port_events (snd (resolve_branch quiet_host static_config Map.empty empty_project ''/site'' []))
     = [AcquirePort Undefined 3999 (Inr 3999)]"
  by (simp_all add: run_defs host_defs static_config_def)

section \<open>Reading the key and the certificate\<close>

lemma quiet_host_readFile: "readFile quiet_host file = Inl (enoent file)"
  by (simp add: quiet_host_def plain_host_def)

lemma pem_options_members:
  "member pem_options ''keyFile'' = JStr ''key.pem''"
  "member pem_options ''certFile'' = JStr ''cert.pem''"
  "typeof pem_options = ''object''"
  "pem_options \<noteq> Null"
  by (simp_all add: pem_options_def)

text \<open>
  Claim C3, as the code has it. When the HTTPS options name a key file and a certificate
  file and the key file cannot be read, \<^verbatim>\<open>readHttpsSettings\<close> has both files read (key
  first, then certificate) and then fails with the error of the key file alone, whatever
  the reading of the certificate gave: with both files unreadable the error describes
  the key problem only.
\<close>

theorem readHttpsSettings_key_error_first:
  assumes "typeof options = ''object''" and "options \<noteq> Null"
    and "member options ''keyFile'' = JStr keyFile" and "keyFile \<noteq> []"
    and "member options ''certFile'' = JStr certFile" and "certFile \<noteq> []"
    and "readFile X keyFile = Inl keyError"
  shows "readHttpsSettings X options w =
           (Inl (Error (key_read_message keyError)), w @ [ReadFile keyFile, ReadFile certFile])"
  using assms
  by (simp add: readHttpsSettings_def io_bind_def readFile_io_def throw_def ret_def
           split: sum.splits)

theorem readHttpsSettings_key_error_first_witness:
  "readFile quiet_host ''cert.pem'' = Inl (enoent ''cert.pem'') \<and>
   readHttpsSettings quiet_host pem_options [] =
     (Inl (Error (key_read_message (enoent ''key.pem''))),
      [ReadFile ''key.pem'', ReadFile ''cert.pem''])"
proof -
  have key: "readFile quiet_host ''key.pem'' = Inl (enoent ''key.pem'')"
    by (rule quiet_host_readFile)
  have "readHttpsSettings quiet_host pem_options [] =
     (Inl (Error (key_read_message (enoent ''key.pem''))),
      [] @ [ReadFile ''key.pem'', ReadFile ''cert.pem''])"
    by (rule readHttpsSettings_key_error_first
          [OF pem_options_members(3) pem_options_members(4) pem_options_members(1) _
              pem_options_members(2) _ key]) simp_all
  then show ?thesis by (simp add: quiet_host_readFile)
qed

text \<open>
  Claim C3 as stated fails: with both files unreadable the one error that
  \<^verbatim>\<open>readHttpsSettings\<close> throws is the key file's, and neither the certificate file's name
  nor the reason why it could not be read occurs in its message.
\<close>

theorem readHttpsSettings_both_unreadable_counterexample:
  "readFile quiet_host ''key.pem'' = Inl (enoent ''key.pem'') \<and>
   readFile quiet_host ''cert.pem'' = Inl (enoent ''cert.pem'') \<and>
   fst (readHttpsSettings quiet_host pem_options []) =
     Inl (Error (''Error reading private key file: '' @ enoent ''key.pem'')) \<and>
   \<not> sublist (enoent ''cert.pem'') (''Error reading private key file: '' @ enoent ''key.pem'') \<and>
   \<not> sublist ''cert.pem'' (''Error reading private key file: '' @ enoent ''key.pem'') \<and>
   \<not> sublist ''certificate'' (''Error reading private key file: '' @ enoent ''key.pem'')"
proof -
  have run: "fst (readHttpsSettings quiet_host pem_options []) =
     Inl (Error (''Error reading private key file: '' @ enoent ''key.pem''))"
    by (simp add: readHttpsSettings_def pem_options_def io_bind_def readFile_io_def throw_def
          quiet_host_readFile key_read_message_def)
  have no_reason: "\<not> sublist (enoent ''cert.pem'')
      (''Error reading private key file: '' @ enoent ''key.pem'')"
    by code_simp
  have no_name: "\<not> sublist ''cert.pem''
      (''Error reading private key file: '' @ enoent ''key.pem'')"
    by code_simp
  have no_word: "\<not> sublist ''certificate''
      (''Error reading private key file: '' @ enoent ''key.pem'')"
    by code_simp
  show ?thesis
    using run no_reason no_name no_word by (simp add: quiet_host_readFile)
qed

section \<open>The JWT defaults\<close>

text \<open>
  Claim C10. Whenever \<^verbatim>\<open>detectServerSettings\<close> returns settings, their \<^verbatim>\<open>jwtSecret\<close> is
  the string \<^verbatim>\<open>secret\<close> if \<^verbatim>\<open>devConfig.jwtSecret\<close> is unset, and their \<^verbatim>\<open>jwtRolePath\<close>
  is \<^verbatim>\<open>app_metadata.authorization.roles\<close> if \<^verbatim>\<open>devConfig.jwtRolePath\<close> is unset. And it
  does return settings, with the configured values or these defaults, whenever the
  framework value is valid, the branch yields settings, the configured port differs from
  the framework port, the port of the dev server is acquired, \<^verbatim>\<open>get-port\<close> answers (if a
  functions server is to be started) and the HTTPS files are read (if configured).
\<close>

theorem detectServerSettings_jwt_defaults:
  "(\<forall>s. fst (detectServerSettings X devConfig options project projectDir w) = Inr s \<longrightarrow>
      (field devConfig ''jwtSecret'' = Undefined \<longrightarrow> field s ''jwtSecret'' = JStr ''secret'') \<and>
      (field devConfig ''jwtRolePath'' = Undefined \<longrightarrow>
         field s ''jwtRolePath'' = JStr ''app_metadata.authorization.roles''))
   \<and> (validateStringProperty X devConfig ''framework'' = Inr ()
       \<and> fst (resolve_branch X devConfig options project projectDir w) = Inr settings
       \<and> validateConfiguredPort X devConfig (field settings ''frameworkPort'') = Inr ()
       \<and> acquirePort X (port_events (snd (resolve_branch X devConfig options project projectDir w)))
            (field devConfig ''port'') 8888 (port_error X) = Inr a
       \<and> (truthy (field devConfig ''functions'') \<or> truthy (field settings ''functions'')
             \<or> truthy (getInternalFunctionsDir X projectDir)
            \<longrightarrow> (\<exists>q. getPort X
                       (port_events (snd (resolve_branch X devConfig options project projectDir w))
                          @ [AcquirePort (field devConfig ''port'') 8888 (Inr a)])
                       (js_or (field devConfig ''functionsPort'') (JNum 0)) = Inr q))
       \<and> (truthy (field devConfig ''https'')
            \<longrightarrow> (\<exists>m. fst (readHttpsSettings X (field devConfig ''https'') []) = Inr m))
      \<longrightarrow> (\<exists>s. fst (detectServerSettings X devConfig options project projectDir w) = Inr s
               \<and> field s ''jwtSecret'' = js_or (field devConfig ''jwtSecret'') (JStr ''secret'')
               \<and> field s ''jwtRolePath'' =
                   js_or (field devConfig ''jwtRolePath'') (JStr ''app_metadata.authorization.roles'')))"
proof (intro conjI allI impI)
  fix s
  assume "fst (detectServerSettings X devConfig options project projectDir w) = Inr s"
  then obtain settings' w1 w' where
    rest: "complete_settings X devConfig projectDir settings' w1 = (Inr s, w')"
    by (rule detectServerSettings_Inr)
  {
    assume "field devConfig ''jwtSecret'' = Undefined"
    with complete_settings_jwt(1)[OF rest] show "field s ''jwtSecret'' = JStr ''secret''"
      by (simp add: field_def js_or_def)
  }
  {
    assume "field devConfig ''jwtRolePath'' = Undefined"
    with complete_settings_jwt(2)[OF rest]
    show "field s ''jwtRolePath'' = JStr ''app_metadata.authorization.roles''"
      by (simp add: field_def js_or_def)
  }
next
  let ?w1 = "snd (resolve_branch X devConfig options project projectDir w)"
  assume hyps: "validateStringProperty X devConfig ''framework'' = Inr ()
       \<and> fst (resolve_branch X devConfig options project projectDir w) = Inr settings
       \<and> validateConfiguredPort X devConfig (field settings ''frameworkPort'') = Inr ()
       \<and> acquirePort X (port_events ?w1) (field devConfig ''port'') 8888 (port_error X) = Inr a
       \<and> (truthy (field devConfig ''functions'') \<or> truthy (field settings ''functions'')
             \<or> truthy (getInternalFunctionsDir X projectDir)
            \<longrightarrow> (\<exists>q. getPort X
                       (port_events ?w1 @ [AcquirePort (field devConfig ''port'') 8888 (Inr a)])
                       (js_or (field devConfig ''functionsPort'') (JNum 0)) = Inr q))
       \<and> (truthy (field devConfig ''https'')
            \<longrightarrow> (\<exists>m. fst (readHttpsSettings X (field devConfig ''https'') []) = Inr m))"
  then have fw: "validateStringProperty X devConfig ''framework'' = Inr ()"
    and branch: "fst (resolve_branch X devConfig options project projectDir w) = Inr settings"
    and valid: "validateConfiguredPort X devConfig (field settings ''frameworkPort'') = Inr ()"
    and main: "acquirePort X (port_events ?w1) (field devConfig ''port'') 8888 (port_error X) = Inr a"
    and funcs: "truthy (field devConfig ''functions'') \<or> truthy (field settings ''functions'')
             \<or> truthy (getInternalFunctionsDir X projectDir)
            \<longrightarrow> (\<exists>q. getPort X
                       (port_events ?w1 @ [AcquirePort (field devConfig ''port'') 8888 (Inr a)])
                       (js_or (field devConfig ''functionsPort'') (JNum 0)) = Inr q)"
    and https: "truthy (field devConfig ''https'')
            \<longrightarrow> (\<exists>m. fst (readHttpsSettings X (field devConfig ''https'') []) = Inr m)"
    by blast+
  show "\<exists>s. fst (detectServerSettings X devConfig options project projectDir w) = Inr s
               \<and> field s ''jwtSecret'' = js_or (field devConfig ''jwtSecret'') (JStr ''secret'')
               \<and> field s ''jwtRolePath'' =
                   js_or (field devConfig ''jwtRolePath'') (JStr ''app_metadata.authorization.roles'')"
    unfolding detectServerSettings_outcome[OF fw branch] complete_settings_outcome[OF valid main]
    using funcs https
    by (auto simp: field_def map_add_def)
qed

theorem detectServerSettings_jwt_defaults_witness:
  "field static_config ''jwtSecret'' = Undefined \<and>
   field static_config ''jwtRolePath'' = Undefined \<and>
   fst (detectServerSettings quiet_host static_config Map.empty empty_project ''/site'' []) =
     Inr [''useStaticServer'' \<mapsto> JBool True, ''frameworkPort'' \<mapsto> JNum 3999,
          ''dist'' \<mapsto> JStr ''/site'', ''port'' \<mapsto> JNum 8888,
          ''jwtSecret'' \<mapsto> JStr ''secret'',
          ''jwtRolePath'' \<mapsto> JStr ''app_metadata.authorization.roles'',
          ''functions'' \<mapsto> Undefined] \<and>
   (\<exists>s. fst (detectServerSettings quiet_host static_config Map.empty empty_project ''/site'' [])
          = Inr s
       \<and> field s ''jwtSecret'' = JStr ''secret''
       \<and> field s ''jwtRolePath'' = JStr ''app_metadata.authorization.roles'')"
proof -
  have unset: "field static_config ''jwtSecret'' = Undefined"
    "field static_config ''jwtRolePath'' = Undefined"
    by (simp_all add: static_config_def field_def)
  have stages: "validateStringProperty quiet_host static_config ''framework'' = Inr ()
       \<and> fst (resolve_branch quiet_host static_config Map.empty empty_project ''/site'' []) =
           Inr [''useStaticServer'' \<mapsto> JBool True, ''frameworkPort'' \<mapsto> JNum 3999,
                ''dist'' \<mapsto> JStr ''/site'']
       \<and> validateConfiguredPort quiet_host static_config
            (field [''useStaticServer'' \<mapsto> JBool True, ''frameworkPort'' \<mapsto> JNum 3999,
                    ''dist'' \<mapsto> JStr ''/site''] ''frameworkPort'') = Inr ()
       \<and> acquirePort quiet_host
            (port_events (snd (resolve_branch quiet_host static_config Map.empty empty_project
                                 ''/site'' [])))
            (field static_config ''port'') 8888 (port_error quiet_host) = Inr 8888
       \<and> (truthy (field static_config ''functions'')
             \<or> truthy (field [''useStaticServer'' \<mapsto> JBool True, ''frameworkPort'' \<mapsto> JNum 3999,
                               ''dist'' \<mapsto> JStr ''/site''] ''functions'')
             \<or> truthy (getInternalFunctionsDir quiet_host ''/site'')
            \<longrightarrow> (\<exists>q. getPort quiet_host
                       (port_events (snd (resolve_branch quiet_host static_config Map.empty
                                            empty_project ''/site'' []))
                          @ [AcquirePort (field static_config ''port'') 8888 (Inr 8888)])
                       (js_or (field static_config ''functionsPort'') (JNum 0)) = Inr q))
       \<and> (truthy (field static_config ''https'')
            \<longrightarrow> (\<exists>m. fst (readHttpsSettings quiet_host (field static_config ''https'') [])
                       = Inr m))"
    unfolding static_branch_runs
    by (simp add: validateStringProperty_def validateConfiguredPort_def field_def
          static_config_def host_defs)
  from detectServerSettings_jwt_defaults[of quiet_host static_config Map.empty empty_project
      "''/site''" "[]"
      "[''useStaticServer'' \<mapsto> JBool True, ''frameworkPort'' \<mapsto> JNum 3999,
        ''dist'' \<mapsto> JStr ''/site'']" 8888] stages
  have "\<exists>s. fst (detectServerSettings quiet_host static_config Map.empty empty_project ''/site'' [])
          = Inr s
       \<and> field s ''jwtSecret'' = js_or (field static_config ''jwtSecret'') (JStr ''secret'')
       \<and> field s ''jwtRolePath'' = js_or (field static_config ''jwtRolePath'')
                                     (JStr ''app_metadata.authorization.roles'')"
    by blast
  then show ?thesis
    using unset static_config_run by (simp add: js_or_def)
qed


section \<open>The static server\<close>

lemma dir_options_run:
  "fst (detectServerSettings quiet_host auto_port_4000_config dir_options gatsby_project
          ''/site'' []) =
     Inr [''useStaticServer'' \<mapsto> JBool True, ''frameworkPort'' \<mapsto> JNum 4000,
          ''dist'' \<mapsto> JStr ''public'', ''port'' \<mapsto> JNum 8888,
          ''jwtSecret'' \<mapsto> JStr ''secret'',
          ''jwtRolePath'' \<mapsto> JStr ''app_metadata.authorization.roles'',
          ''functions'' \<mapsto> Undefined]"
  by (simp add: run_defs host_defs auto_port_4000_config_def dir_options_def)

text \<open>
  Claim C8. When the \<^verbatim>\<open>--dir\<close> flag is set or \<^verbatim>\<open>devConfig.framework\<close> is \<^verbatim>\<open>#static\<close>, the
  settings that \<^verbatim>\<open>detectServerSettings\<close> returns have \<^verbatim>\<open>useStaticServer = true\<close>, and their
  \<^verbatim>\<open>frameworkPort\<close> is the port that \<^verbatim>\<open>acquirePort\<close> gave when asked, before any other
  port, for the configured port \<^verbatim>\<open>devConfig.staticServerPort\<close> with the default 3999. And
  settings are returned, with that port and with the directory served (the flag, the
  publish directory or the working directory), whenever the framework value and the static
  server port are well-typed, the directory is a string, the static server port is
  acquired and differs from the configured port, the port of the dev server is acquired,
  \<^verbatim>\<open>get-port\<close> answers (if a functions server is to be started) and the HTTPS files are
  read (if configured).
\<close>

theorem static_server_settings:
  assumes "truthy (field options ''dir'') \<or> field devConfig ''framework'' = JStr ''#static''"
  shows "(\<forall>s. fst (detectServerSettings X devConfig options project projectDir w) = Inr s \<longrightarrow>
            field s ''useStaticServer'' = JBool True \<and>
            (\<exists>p. acquirePort X (port_events w) (field devConfig ''staticServerPort'') 3999
                    static_port_error = Inr p
                 \<and> field s ''frameworkPort'' = JNum p))
       \<and> (validateStringProperty X devConfig ''framework'' = Inr ()
           \<and> validateNumberProperty X devConfig ''staticServerPort'' = Inr ()
           \<and> js_or (field options ''dir'') (js_or (field devConfig ''publish'') (JStr (cwd X)))
               = JStr d
           \<and> acquirePort X (port_events w) (field devConfig ''staticServerPort'') 3999
                static_port_error = Inr p
           \<and> validateConfiguredPort X devConfig (JNum p) = Inr ()
           \<and> acquirePort X
                (port_events w @ [AcquirePort (field devConfig ''staticServerPort'') 3999 (Inr p)])
                (field devConfig ''port'') 8888 (port_error X) = Inr a
           \<and> (truthy (field devConfig ''functions'') \<or> truthy (getInternalFunctionsDir X projectDir)
                \<longrightarrow> (\<exists>q. getPort X
                           (port_events w
                              @ [AcquirePort (field devConfig ''staticServerPort'') 3999 (Inr p),
                                 AcquirePort (field devConfig ''port'') 8888 (Inr a)])
                           (js_or (field devConfig ''functionsPort'') (JNum 0)) = Inr q))
           \<and> (truthy (field devConfig ''https'')
                \<longrightarrow> (\<exists>m. fst (readHttpsSettings X (field devConfig ''https'') []) = Inr m))
          \<longrightarrow> (\<exists>s. fst (detectServerSettings X devConfig options project projectDir w) = Inr s
                   \<and> field s ''useStaticServer'' = JBool True
                   \<and> field s ''frameworkPort'' = JNum p
                   \<and> field s ''dist'' = JStr d))"
proof (intro conjI allI impI)
  fix s
  assume run: "fst (detectServerSettings X devConfig options project projectDir w) = Inr s"
  from run obtain settings w1 w' where
    branch: "resolve_branch X devConfig options project projectDir w = (Inr settings, w1)" and
    rest: "complete_settings X devConfig projectDir settings w1 = (Inr s, w')"
    by (rule detectServerSettings_Inr)
  from branch assms have
    "handleStaticServer X devConfig options projectDir w = (Inr settings, w1)"
    by (simp add: resolve_branch_def)
  from handleStaticServer_Inr[OF this] obtain p d where
    port: "acquirePort X (port_events w) (field devConfig ''staticServerPort'')
             DEFAULT_STATIC_PORT static_port_error = Inr p" and
    settings: "settings = (if truthy (field devConfig ''command'')
                  then [''command'' \<mapsto> field devConfig ''command''] else Map.empty)
                 ++ [''useStaticServer'' \<mapsto> JBool True, ''frameworkPort'' \<mapsto> JNum p,
                     ''dist'' \<mapsto> d]"
    by blast
  have "s ''useStaticServer'' = settings ''useStaticServer''"
    by (rule complete_settings_keeps[OF rest]) simp
  moreover have "s ''frameworkPort'' = settings ''frameworkPort''"
    by (rule complete_settings_keeps[OF rest]) simp
  ultimately have "field s ''useStaticServer'' = JBool True"
    and "field s ''frameworkPort'' = JNum p"
    by (simp_all add: field_def settings)
  with port show "field s ''useStaticServer'' = JBool True"
    and "\<exists>p. acquirePort X (port_events w) (field devConfig ''staticServerPort'') 3999
                    static_port_error = Inr p
                 \<and> field s ''frameworkPort'' = JNum p"
    by (auto simp: DEFAULT_STATIC_PORT_def)
next
  assume hyps: "validateStringProperty X devConfig ''framework'' = Inr ()
           \<and> validateNumberProperty X devConfig ''staticServerPort'' = Inr ()
           \<and> js_or (field options ''dir'') (js_or (field devConfig ''publish'') (JStr (cwd X)))
               = JStr d
           \<and> acquirePort X (port_events w) (field devConfig ''staticServerPort'') 3999
                static_port_error = Inr p
           \<and> validateConfiguredPort X devConfig (JNum p) = Inr ()
           \<and> acquirePort X
                (port_events w @ [AcquirePort (field devConfig ''staticServerPort'') 3999 (Inr p)])
                (field devConfig ''port'') 8888 (port_error X) = Inr a
           \<and> (truthy (field devConfig ''functions'') \<or> truthy (getInternalFunctionsDir X projectDir)
                \<longrightarrow> (\<exists>q. getPort X
                           (port_events w
                              @ [AcquirePort (field devConfig ''staticServerPort'') 3999 (Inr p),
                                 AcquirePort (field devConfig ''port'') 8888 (Inr a)])
                           (js_or (field devConfig ''functionsPort'') (JNum 0)) = Inr q))
           \<and> (truthy (field devConfig ''https'')
                \<longrightarrow> (\<exists>m. fst (readHttpsSettings X (field devConfig ''https'') []) = Inr m))"
  let ?settings = "(if truthy (field devConfig ''command'')
                 then [''command'' \<mapsto> field devConfig ''command''] else Map.empty)
                ++ [''useStaticServer'' \<mapsto> JBool True, ''frameworkPort'' \<mapsto> JNum p,
                    ''dist'' \<mapsto> JStr d]"
  let ?w1 = "snd (resolve_branch X devConfig options project projectDir w)"
  have branch_is: "resolve_branch X devConfig options project projectDir w =
      handleStaticServer X devConfig options projectDir w"
    using assms by (simp add: resolve_branch_def)
  from hyps have static: "fst (handleStaticServer X devConfig options projectDir w) = Inr ?settings"
    "port_events (snd (handleStaticServer X devConfig options projectDir w)) =
       port_events w @ [AcquirePort (field devConfig ''staticServerPort'') 3999 (Inr p)]"
    using handleStaticServer_outcome[of X devConfig options d w p projectDir] by blast+
  have branch: "fst (resolve_branch X devConfig options project projectDir w) = Inr ?settings"
    and trace: "port_events ?w1 =
       port_events w @ [AcquirePort (field devConfig ''staticServerPort'') 3999 (Inr p)]"
    using static by (simp_all add: branch_is)
  have fields: "field ?settings ''frameworkPort'' = JNum p" "field ?settings ''functions'' = Undefined"
    by (simp_all add: field_def map_add_def)
  from hyps have valid: "validateConfiguredPort X devConfig (field ?settings ''frameworkPort'') = Inr ()"
    unfolding fields by blast
  from hyps have main: "acquirePort X (port_events ?w1) (field devConfig ''port'') 8888
      (port_error X) = Inr a"
    unfolding trace by blast
  from hyps have fw: "validateStringProperty X devConfig ''framework'' = Inr ()" by blast
  have outcome: "fst (detectServerSettings X devConfig options project projectDir w) =
      fst (complete_settings X devConfig projectDir ?settings ?w1)"
    by (rule detectServerSettings_outcome[OF fw branch])
  from hyps have funcs: "truthy (field devConfig ''functions'')
      \<or> truthy (getInternalFunctionsDir X projectDir)
      \<longrightarrow> (\<exists>q. getPort X (port_events ?w1 @ [AcquirePort (field devConfig ''port'') 8888 (Inr a)])
                 (js_or (field devConfig ''functionsPort'') (JNum 0)) = Inr q)"
    unfolding trace by simp
  from hyps have https: "truthy (field devConfig ''https'')
      \<longrightarrow> (\<exists>m. fst (readHttpsSettings X (field devConfig ''https'') []) = Inr m)"
    by blast
  show "\<exists>s. fst (detectServerSettings X devConfig options project projectDir w) = Inr s
                   \<and> field s ''useStaticServer'' = JBool True
                   \<and> field s ''frameworkPort'' = JNum p
                   \<and> field s ''dist'' = JStr d"
    unfolding outcome complete_settings_outcome[OF valid main]
    using funcs https
    by (auto simp: fields field_def map_add_def)
qed


theorem static_server_settings_witness:
  "field static_config ''framework'' = JStr ''#static'' \<and>
   fst (detectServerSettings quiet_host static_config Map.empty empty_project ''/site'' []) =
     Inr [''useStaticServer'' \<mapsto> JBool True, ''frameworkPort'' \<mapsto> JNum 3999,
          ''dist'' \<mapsto> JStr ''/site'', ''port'' \<mapsto> JNum 8888,
          ''jwtSecret'' \<mapsto> JStr ''secret'',
          ''jwtRolePath'' \<mapsto> JStr ''app_metadata.authorization.roles'',
          ''functions'' \<mapsto> Undefined] \<and>
   (\<exists>s. fst (detectServerSettings quiet_host static_config Map.empty empty_project ''/site'' [])
          = Inr s
       \<and> field s ''useStaticServer'' = JBool True
       \<and> field s ''frameworkPort'' = JNum 3999
       \<and> field s ''dist'' = JStr ''/site'') \<and>
   truthy (field dir_options ''dir'') \<and>
   field auto_port_4000_config ''staticServerPort'' = JNum 4000 \<and>
   fst (detectServerSettings quiet_host auto_port_4000_config dir_options gatsby_project
          ''/site'' []) =
     Inr [''useStaticServer'' \<mapsto> JBool True, ''frameworkPort'' \<mapsto> JNum 4000,
          ''dist'' \<mapsto> JStr ''public'', ''port'' \<mapsto> JNum 8888,
          ''jwtSecret'' \<mapsto> JStr ''secret'',
          ''jwtRolePath'' \<mapsto> JStr ''app_metadata.authorization.roles'',
          ''functions'' \<mapsto> Undefined] \<and>
   (\<exists>s. fst (detectServerSettings quiet_host auto_port_4000_config dir_options gatsby_project
               ''/site'' []) = Inr s
       \<and> field s ''useStaticServer'' = JBool True
       \<and> field s ''frameworkPort'' = JNum 4000
       \<and> field s ''dist'' = JStr ''public'')"
proof -
  have static: "truthy (field Map.empty ''dir'') \<or> field static_config ''framework'' = JStr ''#static''"
    and fw: "field static_config ''framework'' = JStr ''#static''"
    by (simp_all add: static_config_def field_def)
  have stages: "validateStringProperty quiet_host static_config ''framework'' = Inr ()
           \<and> validateNumberProperty quiet_host static_config ''staticServerPort'' = Inr ()
           \<and> js_or (field Map.empty ''dir'')
                (js_or (field static_config ''publish'') (JStr (cwd quiet_host))) = JStr ''/site''
           \<and> acquirePort quiet_host (port_events []) (field static_config ''staticServerPort'')
                3999 static_port_error = Inr 3999
           \<and> validateConfiguredPort quiet_host static_config (JNum 3999) = Inr ()
           \<and> acquirePort quiet_host
                (port_events []
                   @ [AcquirePort (field static_config ''staticServerPort'') 3999 (Inr 3999)])
                (field static_config ''port'') 8888 (port_error quiet_host) = Inr 8888
           \<and> (truthy (field static_config ''functions'')
                 \<or> truthy (getInternalFunctionsDir quiet_host ''/site'')
                \<longrightarrow> (\<exists>q. getPort quiet_host
                           (port_events []
                              @ [AcquirePort (field static_config ''staticServerPort'') 3999
                                   (Inr 3999),
                                 AcquirePort (field static_config ''port'') 8888 (Inr 8888)])
                           (js_or (field static_config ''functionsPort'') (JNum 0)) = Inr q))
           \<and> (truthy (field static_config ''https'')
                \<longrightarrow> (\<exists>m. fst (readHttpsSettings quiet_host (field static_config ''https'') [])
                           = Inr m))"
    by (simp add: validateStringProperty_def validateNumberProperty_def
          validateConfiguredPort_def field_def js_or_def static_config_def host_defs)
  from static_server_settings[OF static, of quiet_host empty_project "''/site''" "[]"
      "''/site''" 3999 8888] stages
  have first: "\<exists>s. fst (detectServerSettings quiet_host static_config Map.empty empty_project
                        ''/site'' []) = Inr s
       \<and> field s ''useStaticServer'' = JBool True
       \<and> field s ''frameworkPort'' = JNum 3999
       \<and> field s ''dist'' = JStr ''/site''"
    by blast
  have dir: "truthy (field dir_options ''dir'')
      \<or> field auto_port_4000_config ''framework'' = JStr ''#static''"
    and flag: "truthy (field dir_options ''dir'')"
    and configured: "field auto_port_4000_config ''staticServerPort'' = JNum 4000"
    by (simp_all add: dir_options_def auto_port_4000_config_def field_def)
  have stages': "validateStringProperty quiet_host auto_port_4000_config ''framework'' = Inr ()
           \<and> validateNumberProperty quiet_host auto_port_4000_config ''staticServerPort'' = Inr ()
           \<and> js_or (field dir_options ''dir'')
                (js_or (field auto_port_4000_config ''publish'') (JStr (cwd quiet_host)))
               = JStr ''public''
           \<and> acquirePort quiet_host (port_events [])
                (field auto_port_4000_config ''staticServerPort'') 3999 static_port_error
               = Inr 4000
           \<and> validateConfiguredPort quiet_host auto_port_4000_config (JNum 4000) = Inr ()
           \<and> acquirePort quiet_host
                (port_events []
                   @ [AcquirePort (field auto_port_4000_config ''staticServerPort'') 3999
                        (Inr 4000)])
                (field auto_port_4000_config ''port'') 8888 (port_error quiet_host) = Inr 8888
           \<and> (truthy (field auto_port_4000_config ''functions'')
                 \<or> truthy (getInternalFunctionsDir quiet_host ''/site'')
                \<longrightarrow> (\<exists>q. getPort quiet_host
                           (port_events []
                              @ [AcquirePort (field auto_port_4000_config ''staticServerPort'')
                                   3999 (Inr 4000),
                                 AcquirePort (field auto_port_4000_config ''port'') 8888
                                   (Inr 8888)])
                           (js_or (field auto_port_4000_config ''functionsPort'') (JNum 0))
                          = Inr q))
           \<and> (truthy (field auto_port_4000_config ''https'')
                \<longrightarrow> (\<exists>m. fst (readHttpsSettings quiet_host
                                  (field auto_port_4000_config ''https'') []) = Inr m))"
    by (simp add: validateStringProperty_def validateNumberProperty_def
          validateConfiguredPort_def field_def js_or_def auto_port_4000_config_def
          dir_options_def host_defs)
  from static_server_settings[OF dir, of quiet_host gatsby_project "''/site''" "[]"
      "''public''" 4000 8888] stages'
  have second: "\<exists>s. fst (detectServerSettings quiet_host auto_port_4000_config dir_options
                         gatsby_project ''/site'' []) = Inr s
       \<and> field s ''useStaticServer'' = JBool True
       \<and> field s ''frameworkPort'' = JNum 4000
       \<and> field s ''dist'' = JStr ''public''"
    by blast
  from fw static_config_run first flag configured dir_options_run second
  show ?thesis by blast
qed


section \<open>The custom framework\<close>

lemma custom_required_names:
  "sublist (formatProperty X ''command'') (custom_required_message X)"
  "sublist (formatProperty X ''targetPort'') (custom_required_message X)"
proof -
  show "sublist (formatProperty X ''command'') (custom_required_message X)"
    unfolding custom_required_message_def by (rule sublist_append_rightI)
  have "sublist (formatProperty X ''targetPort'')
     ((formatProperty X ''command'' @ '' and '') @ formatProperty X ''targetPort'' @
       ('' properties are required when '' @ formatProperty X ''framework''
       @ '' is set to '' @ formatValue X ''#custom''))"
    by (rule sublist_appendI)
  then show "sublist (formatProperty X ''targetPort'') (custom_required_message X)"
    by (simp add: custom_required_message_def)
qed

text \<open>When \<^verbatim>\<open>validateFrameworkConfig\<close> lets a configuration pass.\<close>

lemma validateFrameworkConfig_passes:
  "validateFrameworkConfig X devConfig = Inr () \<longleftrightarrow>
     (truthy (field devConfig ''command'') \<longrightarrow> typeof (field devConfig ''command'') = ''string'') \<and>
     (truthy (field devConfig ''port'') \<longrightarrow> typeof (field devConfig ''port'') = ''number'') \<and>
     (truthy (field devConfig ''targetPort'') \<longrightarrow>
        typeof (field devConfig ''targetPort'') = ''number''
        \<and> field devConfig ''targetPort'' \<noteq> field devConfig ''port'')"
  by (auto simp: validateFrameworkConfig_def validateStringProperty_def
        validateNumberProperty_def)

text \<open>
  Claim C5, as the code has it. With \<^verbatim>\<open>framework = '#custom'\<close> and no \<^verbatim>\<open>--dir\<close> flag, a
  configuration that passes the validation of the framework configuration (a command
  that is set is a string, \<^verbatim>\<open>port\<close> and \<^verbatim>\<open>targetPort\<close> that are set are numbers, a set
  \<^verbatim>\<open>targetPort\<close> differs from \<^verbatim>\<open>port\<close>) and lacks \<^verbatim>\<open>command\<close> or \<^verbatim>\<open>targetPort\<close> makes
  \<^verbatim>\<open>detectServerSettings\<close> fail, before anything else happens, with the error whose message
  names both \<^verbatim>\<open>command\<close> and \<^verbatim>\<open>targetPort\<close>.
\<close>

theorem custom_framework_requires_command_and_targetPort:
  assumes "field devConfig ''framework'' = JStr ''#custom''"
    and "\<not> truthy (field options ''dir'')"
    and "validateFrameworkConfig X devConfig = Inr ()"
    and "\<not> truthy (field devConfig ''command'') \<or> \<not> truthy (field devConfig ''targetPort'')"
  shows "detectServerSettings X devConfig options project projectDir w =
           (Inl (Error (custom_required_message X)), w)
         \<and> sublist (formatProperty X ''command'') (custom_required_message X)
         \<and> sublist (formatProperty X ''targetPort'') (custom_required_message X)"
proof -
  have "detectServerSettings X devConfig options project projectDir w =
           (Inl (Error (custom_required_message X)), w)"
    using assms
    by (auto simp: detectServerSettings_def resolve_branch_def handleCustomFramework_def
         hasCommandAndTargetPort_def js_and_def io_bind_def lift_def throw_def
         validateStringProperty_def)
  then show ?thesis using custom_required_names by simp
qed

theorem custom_framework_requires_command_and_targetPort_witness:
  "detectServerSettings quiet_host custom_no_command_config Map.empty empty_project ''/site'' [] =
     (Inl (Error (custom_required_message quiet_host)), [])
   \<and> sublist (formatProperty quiet_host ''command'') (custom_required_message quiet_host)
   \<and> sublist (formatProperty quiet_host ''targetPort'') (custom_required_message quiet_host)"
proof -
  have custom: "field custom_no_command_config ''framework'' = JStr ''#custom''"
    by (simp add: custom_no_command_config_def field_def)
  have no_dir: "\<not> truthy (field Map.empty ''dir'')"
    by (simp add: field_def)
  have valid: "validateFrameworkConfig quiet_host custom_no_command_config = Inr ()"
    by (simp add: validateFrameworkConfig_passes custom_no_command_config_def field_def)
  have missing: "\<not> truthy (field custom_no_command_config ''command'')
      \<or> \<not> truthy (field custom_no_command_config ''targetPort'')"
    by (simp add: custom_no_command_config_def field_def)
  show ?thesis
    by (rule custom_framework_requires_command_and_targetPort[OF custom no_dir valid missing])
qed

text \<open>
  Claim C5 as stated fails: a \<^verbatim>\<open>#custom\<close> configuration without a command whose \<^verbatim>\<open>port\<close> and
  \<^verbatim>\<open>targetPort\<close> are both 3000 fails in the validation that runs first, with the error
  about equal ports, and that message does not name \<^verbatim>\<open>command\<close>.
\<close>

theorem custom_framework_other_error_counterexample:
  "field custom_same_ports_config ''framework'' = JStr ''#custom'' \<and>
   field custom_same_ports_config ''command'' = Undefined \<and>
   fst (detectServerSettings quiet_host custom_same_ports_config Map.empty empty_project
          ''/site'' []) = Inl (Error (same_ports_message quiet_host)) \<and>
   \<not> sublist ''command'' (same_ports_message quiet_host)"
proof -
  have run: "fst (detectServerSettings quiet_host custom_same_ports_config Map.empty
      empty_project ''/site'' []) = Inl (Error (same_ports_message quiet_host))"
    by (simp add: run_defs custom_same_ports_config_def)
  have "same_ports_message quiet_host =
      quote ''port'' @ '' and '' @ quote ''targetPort''
       @ '' options cannot have same values. Please consult the documentation for more details: https://cli.netlify.com/netlify-dev#netlifytoml-dev-block''"
    by (simp add: same_ports_message_def formatProperty_def quiet_host_def plain_host_def)
  moreover have "\<not> sublist ''command'' (quote ''port'' @ '' and '' @ quote ''targetPort''
       @ '' options cannot have same values. Please consult the documentation for more details: https://cli.netlify.com/netlify-dev#netlifytoml-dev-block'')"
    by code_simp
  ultimately have absent: "\<not> sublist ''command'' (same_ports_message quiet_host)"
    by simp
  show ?thesis
    using run absent by (simp add: custom_same_ports_config_def field_def)
qed

section \<open>Equal port and targetPort\<close>

lemma validateFrameworkConfig_same_ports:
  assumes "field devConfig ''port'' = JNum n" and "field devConfig ''targetPort'' = JNum n"
    and "n \<noteq> 0"
    and "\<not> truthy (field devConfig ''command'') \<or> typeof (field devConfig ''command'') = ''string''"
  shows "validateFrameworkConfig X devConfig = Inl (Error (same_ports_message X))"
  using assms
  by (auto simp: validateFrameworkConfig_def validateStringProperty_def validateNumberProperty_def)

lemma gatsby_detected:
  "fst (detectFrameworkSettings quiet_host gatsby_project []) =
     Inr (Some (getSettingsFromDetectedSettings gatsby_settings))"
  by (simp add: detectFrameworkSettings_def gatsby_project_def in_workspace_def
        has_devCommand_def opt_string_def gatsby_settings_def)

text \<open>
  Claim C2, as the code has it. Let \<^verbatim>\<open>port\<close> and \<^verbatim>\<open>targetPort\<close> be the same number (not 0),
  the command unset or a string, and no \<^verbatim>\<open>--dir\<close> flag given. With \<^verbatim>\<open>framework = '#custom'\<close>
  or a named framework, \<^verbatim>\<open>detectServerSettings\<close> fails with the error about equal ports
  before any port is requested; with \<^verbatim>\<open>framework = '#auto'\<close> it does so when no command is
  configured and the detection finds a framework. (With \<^verbatim>\<open>--dir\<close>, with \<^verbatim>\<open>#static\<close> and
  when the detection finds nothing, \<^verbatim>\<open>targetPort\<close> is ignored and the equality is not an
  error.)
\<close>

theorem same_port_and_targetPort_rejected:
  assumes "\<not> truthy (field options ''dir'')"
    and "field devConfig ''port'' = JNum n" and "field devConfig ''targetPort'' = JNum n"
    and "n \<noteq> 0"
    and "\<not> truthy (field devConfig ''command'') \<or> typeof (field devConfig ''command'') = ''string''"
    and "field devConfig ''framework'' = JStr f" and "f \<noteq> []" and "f \<noteq> ''#static''"
    and "f = ''#auto'' \<longrightarrow> \<not> truthy (field devConfig ''command'')
           \<and> (\<exists>fs. fst (detectFrameworkSettings X project w) = Inr (Some fs))"
  shows "\<exists>w'. detectServerSettings X devConfig options project projectDir w =
                 (Inl (Error (same_ports_message X)), w')
              \<and> port_events w' = port_events w"
proof -
  have v: "validateFrameworkConfig X devConfig = Inl (Error (same_ports_message X))"
    using assms(2-5) by (rule validateFrameworkConfig_same_ports)
  have fw: "validateStringProperty X devConfig ''framework'' = Inr ()"
    using assms(6) by (simp add: validateStringProperty_def)
  show ?thesis
  proof (cases "f = ''#auto''")
    case False
    then have "detectServerSettings X devConfig options project projectDir w =
                 (Inl (Error (same_ports_message X)), w)"
      using assms(1,6,7,8) v fw
      by (auto simp: detectServerSettings_def resolve_branch_def io_bind_def lift_def)
    then show ?thesis by simp
  next
    case True
    with assms(9) obtain fs where
      nocmd: "\<not> truthy (field devConfig ''command'')" and
      det: "fst (detectFrameworkSettings X project w) = Inr (Some fs)"
      by blast
    obtain w1 where det': "detectFrameworkSettings X project w = (Inr (Some fs), w1)"
      using det by (cases "detectFrameworkSettings X project w") simp
    have pe: "port_events w1 = port_events w"
      using det'
      by (auto simp: detectFrameworkSettings_def Let_def port_events_def split: if_splits)
    have "detectServerSettings X devConfig options project projectDir w =
                 (Inl (Error (same_ports_message X)), w1)"
      using assms(1,6) True v fw nocmd det'
      by (simp add: detectServerSettings_def resolve_branch_def auto_branch_def
            hasCommandAndTargetPort_def js_and_def io_bind_def lift_def)
    with pe show ?thesis by simp
  qed
qed

theorem same_port_and_targetPort_rejected_witness:
  "fst (detectFrameworkSettings quiet_host gatsby_project []) =
     Inr (Some (getSettingsFromDetectedSettings gatsby_settings)) \<and>
   (\<exists>w'. detectServerSettings quiet_host auto_same_ports_config Map.empty gatsby_project
            ''/site'' [] = (Inl (Error (same_ports_message quiet_host)), w')
        \<and> port_events w' = [])"
proof -
  have no_dir: "\<not> truthy (field Map.empty ''dir'')"
    by (simp add: field_def)
  have port: "field auto_same_ports_config ''port'' = JNum 5000"
    and target: "field auto_same_ports_config ''targetPort'' = JNum 5000"
    and command: "\<not> truthy (field auto_same_ports_config ''command'')
        \<or> typeof (field auto_same_ports_config ''command'') = ''string''"
    and fw: "field auto_same_ports_config ''framework'' = JStr ''#auto''"
    by (simp_all add: auto_same_ports_config_def field_def)
  have detection: "''#auto'' = ''#auto'' \<longrightarrow>
      \<not> truthy (field auto_same_ports_config ''command'')
      \<and> (\<exists>fs. fst (detectFrameworkSettings quiet_host gatsby_project []) = Inr (Some fs))"
    using gatsby_detected by (simp add: auto_same_ports_config_def field_def)
  have "\<exists>w'. detectServerSettings quiet_host auto_same_ports_config Map.empty gatsby_project
            ''/site'' [] = (Inl (Error (same_ports_message quiet_host)), w')
        \<and> port_events w' = port_events []"
    by (rule same_port_and_targetPort_rejected[OF no_dir port target _ command fw _ _ detection])
      simp_all
  with gatsby_detected show ?thesis by simp
qed

text \<open>
  Claim C2 as stated fails: with \<^verbatim>\<open>framework = '#static'\<close> and \<^verbatim>\<open>port\<close> and \<^verbatim>\<open>targetPort\<close>
  both 5000, \<^verbatim>\<open>detectServerSettings\<close> does not fail; it requests the static server port
  and then port 5000, and returns settings.
\<close>

theorem same_port_and_targetPort_static_counterexample:
  "field static_same_ports_config ''port'' = JNum 5000 \<and>
   field static_same_ports_config ''targetPort'' = JNum 5000 \<and>
   fst (detectServerSettings quiet_host static_same_ports_config Map.empty empty_project
          ''/site'' []) =
     Inr [''useStaticServer'' \<mapsto> JBool True, ''frameworkPort'' \<mapsto> JNum 3999,
          ''dist'' \<mapsto> JStr ''/site'', ''port'' \<mapsto> JNum 5000,
          ''jwtSecret'' \<mapsto> JStr ''secret'',
          ''jwtRolePath'' \<mapsto> JStr ''app_metadata.authorization.roles'',
          ''functions'' \<mapsto> Undefined] \<and>
   port_events (snd (detectServerSettings quiet_host static_same_ports_config Map.empty
                       empty_project ''/site'' [])) =
     [AcquirePort Undefined 3999 (Inr 3999), AcquirePort (JNum 5000) 8888 (Inr 5000)]"
  by (simp add: run_defs host_defs static_same_ports_config_def port_events_Cons)

section \<open>Detection without a match\<close>

lemma same_outcomeD:
  assumes "same_outcome m" and "port_events w = port_events v"
    and "m w = (r, w1)" and "m v = (r', v1)"
  shows "r' = r \<and> port_events w1 = port_events v1"
proof -
  from assms(1,2) have "fst (m w) = fst (m v) \<and> port_events (snd (m w)) = port_events (snd (m v))"
    unfolding same_outcome_def by blast
  then show ?thesis unfolding assms(3,4) by simp
qed

lemma same_outcomeI:
  assumes "\<And>w v r w1 r' v1. port_events w = port_events v \<Longrightarrow> m w = (r, w1) \<Longrightarrow> m v = (r', v1)
     \<Longrightarrow> r' = r \<and> port_events w1 = port_events v1"
  shows "same_outcome m"
  unfolding same_outcome_def
proof (intro allI impI)
  fix w v :: "event list"
  assume pe: "port_events w = port_events v"
  obtain r w1 where a: "m w = (r, w1)" by (cases "m w")
  obtain r' v1 where b: "m v = (r', v1)" by (cases "m v")
  from assms[OF pe a b] show "fst (m w) = fst (m v) \<and> port_events (snd (m w)) = port_events (snd (m v))"
    unfolding a b by simp
qed

lemma same_outcome_bind:
  assumes "same_outcome m" and "\<And>x. same_outcome (f x)"
  shows "same_outcome (io_bind m f)"
proof (rule same_outcomeI)
  fix w v r w1 r' v1
  assume pe: "port_events w = port_events v"
    and a: "io_bind m f w = (r, w1)" and b: "io_bind m f v = (r', v1)"
  obtain r0 w0 where a0: "m w = (r0, w0)" by (cases "m w")
  obtain r0' v0 where b0: "m v = (r0', v0)" by (cases "m v")
  from same_outcomeD[OF assms(1) pe a0 b0] have rr: "r0' = r0" and pp: "port_events w0 = port_events v0"
    by blast+
  show "r' = r \<and> port_events w1 = port_events v1"
  proof (cases r0)
    case (Inl e)
    from a a0 Inl have "r = Inl e" "w1 = w0" by (simp_all add: io_bind_def)
    moreover from b b0 rr Inl have "r' = Inl e" "v1 = v0" by (simp_all add: io_bind_def)
    ultimately show ?thesis using pp by simp
  next
    case (Inr x)
    from a a0 Inr have fa: "f x w0 = (r, w1)" by (simp add: io_bind_def)
    from b b0 rr Inr have fb: "f x v0 = (r', v1)" by (simp add: io_bind_def)
    from same_outcomeD[OF assms(2) pp fa fb] show ?thesis .
  qed
qed


lemma same_outcome_ret: "same_outcome (ret x)"
  by (rule same_outcomeI) (simp add: ret_def)

lemma same_outcome_throw: "same_outcome (throw e)"
  by (rule same_outcomeI) (simp add: throw_def)

lemma same_outcome_lift: "same_outcome (lift r)"
  by (rule same_outcomeI) (simp add: lift_def)

lemma same_outcome_log: "same_outcome (log s)"
  by (rule same_outcomeI) (auto simp: log_def)

lemma same_outcome_log_if: "same_outcome (log_if b s)"
  by (simp add: log_if_def same_outcome_log same_outcome_ret)

lemma same_outcome_getDefaultDist: "same_outcome (getDefaultDist X)"
  by (rule same_outcomeI) (auto simp: getDefaultDist_def)

lemma same_outcome_acquirePort: "same_outcome (acquirePort_io X c d msg)"
  by (rule same_outcomeI) (auto simp: acquirePort_io_def port_events_Cons)

lemma same_outcome_getPort: "same_outcome (getPort_io X c)"
  by (rule same_outcomeI) (auto simp: getPort_io_def port_events_Cons)

lemma same_outcome_readFile: "same_outcome (readFile_io X file)"
  by (rule same_outcomeI) (auto simp: readFile_io_def port_events_Cons)

lemma same_outcome_getInternalFunctionsDir: "same_outcome (getInternalFunctionsDir_io X base)"
  by (rule same_outcomeI) (auto simp: getInternalFunctionsDir_io_def port_events_Cons)

lemmas same_outcome_basic = same_outcome_ret same_outcome_throw same_outcome_lift
  same_outcome_log same_outcome_log_if same_outcome_getDefaultDist same_outcome_acquirePort
  same_outcome_getPort same_outcome_readFile same_outcome_getInternalFunctionsDir

lemma same_outcome_handleStaticServer:
  "same_outcome (handleStaticServer X devConfig options projectDir)"
  unfolding handleStaticServer_def getStaticServerPort_def
  by (intro same_outcome_bind) (simp_all add: same_outcome_basic split: jsval.splits)

lemma same_outcome_readHttpsSettings: "same_outcome (readHttpsSettings X options)"
  unfolding readHttpsSettings_def
  by (auto intro!: same_outcome_bind simp: same_outcome_basic split: jsval.splits sum.splits)

lemma same_outcome_complete_settings:
  "same_outcome (complete_settings X devConfig projectDir settings)"
  unfolding complete_settings_def Let_def
  by (intro same_outcome_bind)
     (auto intro!: same_outcome_bind simp: same_outcome_basic same_outcome_readHttpsSettings)


lemma final_object_plugins:
  "(settings(''plugins'' \<mapsto> v))
      ++ [''port'' \<mapsto> a, ''jwtSecret'' \<mapsto> b, ''jwtRolePath'' \<mapsto> c, ''functions'' \<mapsto> d]
      ++ (if fp then [''functionsPort'' \<mapsto> e] else Map.empty)
      ++ (if hp then [''https'' \<mapsto> h] else Map.empty)
   = (settings
      ++ [''port'' \<mapsto> a, ''jwtSecret'' \<mapsto> b, ''jwtRolePath'' \<mapsto> c, ''functions'' \<mapsto> d]
      ++ (if fp then [''functionsPort'' \<mapsto> e] else Map.empty)
      ++ (if hp then [''https'' \<mapsto> h] else Map.empty))(''plugins'' \<mapsto> v)"
  by (rule ext) (simp add: map_add_def)

lemma complete_settings_plugins:
  "complete_settings X devConfig projectDir (settings(''plugins'' \<mapsto> v)) w =
     (with_plugins v (fst (complete_settings X devConfig projectDir settings w)),
      snd (complete_settings X devConfig projectDir settings w))"
proof -
  have fp: "field (settings(''plugins'' \<mapsto> v)) ''frameworkPort'' = field settings ''frameworkPort''"
    and fn: "field (settings(''plugins'' \<mapsto> v)) ''functions'' = field settings ''functions''"
    by (simp_all add: field_def)
  show ?thesis
    unfolding complete_settings_def fp fn Let_def
    using final_object_plugins[of settings v _ _ _ _ True _ True]
      final_object_plugins[of settings v _ _ _ _ True _ False]
      final_object_plugins[of settings v _ _ _ _ False _ True]
      final_object_plugins[of settings v _ _ _ _ False _ False]
    by (simp add: io_bind_def ret_def with_plugins_def split: prod.splits sum.splits)
qed


lemma same_outcome_static_server_resolution:
  "same_outcome (static_server_resolution X devConfig options projectDir)"
  unfolding static_server_resolution_def
  by (intro same_outcome_bind same_outcome_handleStaticServer same_outcome_complete_settings)

lemma io_bind_assoc: "io_bind (io_bind m f) g = io_bind m (\<lambda>x. io_bind (f x) g)"
  by (rule ext) (simp add: io_bind_def split: prod.splits sum.splits)

lemma io_bind_ret: "io_bind (ret x) f = f x"
  by (rule ext) (simp add: io_bind_def ret_def)

lemma fst_io_bind_with_plugins:
  assumes "\<And>x w. f x w = (with_plugins v (fst (g x w)), snd (g x w))"
  shows "fst (io_bind m f w) = with_plugins v (fst (io_bind m g w))"
  using assms by (simp add: io_bind_def with_plugins_def split: prod.splits sum.splits)

lemma static_server_resolution_is_static_branch:
  assumes "truthy (field options ''dir'') \<or> field devConfig ''framework'' = JStr ''#static''"
    and "validateStringProperty X devConfig ''framework'' = Inr ()"
  shows "detectServerSettings X devConfig options project projectDir =
           static_server_resolution X devConfig options projectDir"
  using assms
  by (intro ext) (simp add: detectServerSettings_def resolve_branch_def
        static_server_resolution_def io_bind_def lift_def)

lemma nothing_detected:
  "detectFrameworkSettings X empty_project w = (Inr None, w @ [GetBuildSettings])"
  by (simp add: detectFrameworkSettings_def empty_project_def)

lemma auto_config_static_resolution:
  "fst (static_server_resolution quiet_host auto_config Map.empty ''/site'' []) =
     Inr [''useStaticServer'' \<mapsto> JBool True, ''frameworkPort'' \<mapsto> JNum 3999,
          ''dist'' \<mapsto> JStr ''/site'', ''port'' \<mapsto> JNum 8888,
          ''jwtSecret'' \<mapsto> JStr ''secret'',
          ''jwtRolePath'' \<mapsto> JStr ''app_metadata.authorization.roles'',
          ''functions'' \<mapsto> Undefined]"
  by (simp add: static_server_resolution_def run_defs host_defs auto_config_def)

lemma auto_config_run:
  "fst (detectServerSettings quiet_host auto_config Map.empty empty_project ''/site'' []) =
     Inr [''useStaticServer'' \<mapsto> JBool True, ''frameworkPort'' \<mapsto> JNum 3999,
          ''dist'' \<mapsto> JStr ''/site'', ''plugins'' \<mapsto> Undefined, ''port'' \<mapsto> JNum 8888,
          ''jwtSecret'' \<mapsto> JStr ''secret'',
          ''jwtRolePath'' \<mapsto> JStr ''app_metadata.authorization.roles'',
          ''functions'' \<mapsto> Undefined]"
  by (simp add: run_defs auto_branch_def hasCommandAndTargetPort_def nothing_detected
        host_defs auto_config_def)

lemma static_server_resolution_no_plugins:
  assumes "fst (static_server_resolution X devConfig options projectDir w) = Inr s"
  shows "s ''plugins'' = None"
proof -
  obtain w' where "static_server_resolution X devConfig options projectDir w = (Inr s, w')"
    using assms by (cases "static_server_resolution X devConfig options projectDir w") simp
  then obtain settings w1 where
    static: "handleStaticServer X devConfig options projectDir w = (Inr settings, w1)" and
    rest: "complete_settings X devConfig projectDir settings w1 = (Inr s, w')"
    by (auto simp: static_server_resolution_def io_bind_Inr)
  from handleStaticServer_Inr[OF static] have "settings ''plugins'' = None"
    by auto
  moreover have "s ''plugins'' = settings ''plugins''"
    by (rule complete_settings_keeps[OF rest]) simp
  ultimately show ?thesis by simp
qed

text \<open>
  Claim C7, as the code has it. With \<^verbatim>\<open>framework = '#auto'\<close> and no \<^verbatim>\<open>--dir\<close> flag, when
  the detection runs (command and \<^verbatim>\<open>targetPort\<close> are not both configured) and is left
  with no setting, \<^verbatim>\<open>detectServerSettings\<close> fails exactly when the static-server
  resolution of the same inputs fails, with the same error, and otherwise returns the
  settings of the static-server resolution with one more property, \<^verbatim>\<open>plugins\<close>, set to
  \<^verbatim>\<open>undefined\<close>, which the settings of the static-server resolution do not have: every
  property reads the same in both.
\<close>

theorem auto_without_match_is_static_resolution:
  assumes "field devConfig ''framework'' = JStr ''#auto''"
    and "\<not> truthy (field options ''dir'')"
    and "\<not> truthy (hasCommandAndTargetPort devConfig)"
    and "filter has_devCommand (filter (in_workspace X project) (buildSettings project)) = []"
  shows "fst (detectServerSettings X devConfig options project projectDir w) =
           with_plugins Undefined (fst (static_server_resolution X devConfig options projectDir w))
         \<and> (\<forall>s. fst (static_server_resolution X devConfig options projectDir w) = Inr s
                \<longrightarrow> s ''plugins'' = None)"
proof -
  let ?w2 = "w @ [GetBuildSettings, Log (no_app_server_message X)]"
  have det: "detectFrameworkSettings X project w = (Inr None, w @ [GetBuildSettings])"
    using assms(4) by (simp add: detectFrameworkSettings_def)
  have auto: "auto_branch X devConfig options project projectDir w =
      io_bind (handleStaticServer X devConfig options projectDir)
        (\<lambda>settings. ret (settings(''plugins'' \<mapsto> Undefined))) ?w2"
    using assms(3) det
    by (simp add: auto_branch_def io_bind_def log_def)
  have branch: "resolve_branch X devConfig options project projectDir w =
      auto_branch X devConfig options project projectDir w"
    using assms(1,2) by (simp add: resolve_branch_def)
  have fw: "validateStringProperty X devConfig ''framework'' = Inr ()"
    using assms(1) by (simp add: validateStringProperty_def)
  have "detectServerSettings X devConfig options project projectDir w =
      io_bind (io_bind (handleStaticServer X devConfig options projectDir)
        (\<lambda>settings. ret (settings(''plugins'' \<mapsto> Undefined))))
        (\<lambda>settings. complete_settings X devConfig projectDir settings) ?w2"
    unfolding detectServerSettings_def fw
    by (simp add: io_bind_def[of "lift _"] lift_def io_bind_def[of "resolve_branch _ _ _ _ _"]
          branch auto io_bind_def[of "io_bind _ _"])
  then have "detectServerSettings X devConfig options project projectDir w =
      io_bind (handleStaticServer X devConfig options projectDir)
        (\<lambda>settings. complete_settings X devConfig projectDir (settings(''plugins'' \<mapsto> Undefined))) ?w2"
    by (simp only: io_bind_assoc io_bind_ret)
  then have "fst (detectServerSettings X devConfig options project projectDir w) =
      with_plugins Undefined (fst (static_server_resolution X devConfig options projectDir ?w2))"
    unfolding static_server_resolution_def
    by (simp only: fst_io_bind_with_plugins[OF complete_settings_plugins])
  moreover have "fst (static_server_resolution X devConfig options projectDir ?w2) =
      fst (static_server_resolution X devConfig options projectDir w)"
  proof -
    have pe: "port_events ?w2 = port_events w" by (simp add: port_events_Cons)
    obtain r w1 where a: "static_server_resolution X devConfig options projectDir ?w2 = (r, w1)"
      by (cases "static_server_resolution X devConfig options projectDir ?w2")
    obtain r' v1 where b: "static_server_resolution X devConfig options projectDir w = (r', v1)"
      by (cases "static_server_resolution X devConfig options projectDir w")
    from same_outcomeD[OF same_outcome_static_server_resolution pe a b] show ?thesis
      unfolding a b by simp
  qed
  ultimately have "fst (detectServerSettings X devConfig options project projectDir w) =
      with_plugins Undefined (fst (static_server_resolution X devConfig options projectDir w))"
    by simp
  with static_server_resolution_no_plugins show ?thesis by blast
qed

theorem auto_without_match_is_static_resolution_witness:
  "filter has_devCommand (filter (in_workspace quiet_host empty_project)
      (buildSettings empty_project)) = [] \<and>
   fst (static_server_resolution quiet_host auto_config Map.empty ''/site'' []) =
     Inr [''useStaticServer'' \<mapsto> JBool True, ''frameworkPort'' \<mapsto> JNum 3999,
          ''dist'' \<mapsto> JStr ''/site'', ''port'' \<mapsto> JNum 8888,
          ''jwtSecret'' \<mapsto> JStr ''secret'',
          ''jwtRolePath'' \<mapsto> JStr ''app_metadata.authorization.roles'',
          ''functions'' \<mapsto> Undefined] \<and>
   fst (detectServerSettings quiet_host auto_config Map.empty empty_project ''/site'' []) =
     with_plugins Undefined
       (Inr [''useStaticServer'' \<mapsto> JBool True, ''frameworkPort'' \<mapsto> JNum 3999,
             ''dist'' \<mapsto> JStr ''/site'', ''port'' \<mapsto> JNum 8888,
             ''jwtSecret'' \<mapsto> JStr ''secret'',
             ''jwtRolePath'' \<mapsto> JStr ''app_metadata.authorization.roles'',
             ''functions'' \<mapsto> Undefined]) \<and>
   [''useStaticServer'' \<mapsto> JBool True, ''frameworkPort'' \<mapsto> JNum 3999,
    ''dist'' \<mapsto> JStr ''/site'', ''port'' \<mapsto> JNum 8888,
    ''jwtSecret'' \<mapsto> JStr ''secret'',
    ''jwtRolePath'' \<mapsto> JStr ''app_metadata.authorization.roles'',
    ''functions'' \<mapsto> Undefined] ''plugins'' = None"
proof -
  have auto: "field auto_config ''framework'' = JStr ''#auto''"
    and detection: "\<not> truthy (hasCommandAndTargetPort auto_config)"
    by (simp_all add: auto_config_def field_def hasCommandAndTargetPort_def js_and_def)
  have no_dir: "\<not> truthy (field Map.empty ''dir'')"
    by (simp add: field_def)
  have none: "filter has_devCommand (filter (in_workspace quiet_host empty_project)
      (buildSettings empty_project)) = []"
    by (simp add: empty_project_def)
  from auto_without_match_is_static_resolution[OF auto no_dir detection none,
      of "''/site''" "[]"] none
  show ?thesis
    unfolding auto_config_static_resolution by blast
qed

text \<open>
  Claim C7 as stated fails: for \<^verbatim>\<open>framework = '#auto'\<close> and a project in which nothing is
  detected, the returned settings have a property \<^verbatim>\<open>plugins\<close> (holding \<^verbatim>\<open>undefined\<close>) that
  the settings of the static-server resolution do not have, so the two objects do not
  have the same fields.
\<close>

theorem auto_without_match_plugins_counterexample:
  "fst (detectFrameworkSettings quiet_host empty_project []) = Inr None \<and>
   fst (detectServerSettings quiet_host auto_config Map.empty empty_project ''/site'' []) =
     Inr [''useStaticServer'' \<mapsto> JBool True, ''frameworkPort'' \<mapsto> JNum 3999,
          ''dist'' \<mapsto> JStr ''/site'', ''plugins'' \<mapsto> Undefined, ''port'' \<mapsto> JNum 8888,
          ''jwtSecret'' \<mapsto> JStr ''secret'',
          ''jwtRolePath'' \<mapsto> JStr ''app_metadata.authorization.roles'',
          ''functions'' \<mapsto> Undefined] \<and>
   fst (static_server_resolution quiet_host auto_config Map.empty ''/site'' []) =
     Inr [''useStaticServer'' \<mapsto> JBool True, ''frameworkPort'' \<mapsto> JNum 3999,
          ''dist'' \<mapsto> JStr ''/site'', ''port'' \<mapsto> JNum 8888,
          ''jwtSecret'' \<mapsto> JStr ''secret'',
          ''jwtRolePath'' \<mapsto> JStr ''app_metadata.authorization.roles'',
          ''functions'' \<mapsto> Undefined] \<and>
   fst (detectServerSettings quiet_host auto_config Map.empty empty_project ''/site'' []) \<noteq>
     fst (static_server_resolution quiet_host auto_config Map.empty ''/site'' [])"
proof -
  have "[''useStaticServer'' \<mapsto> JBool True, ''frameworkPort'' \<mapsto> JNum 3999,
          ''dist'' \<mapsto> JStr ''/site'', ''plugins'' \<mapsto> Undefined, ''port'' \<mapsto> JNum 8888,
          ''jwtSecret'' \<mapsto> JStr ''secret'',
          ''jwtRolePath'' \<mapsto> JStr ''app_metadata.authorization.roles'',
          ''functions'' \<mapsto> Undefined] ''plugins'' \<noteq>
        [''useStaticServer'' \<mapsto> JBool True, ''frameworkPort'' \<mapsto> JNum 3999,
          ''dist'' \<mapsto> JStr ''/site'', ''port'' \<mapsto> JNum 8888,
          ''jwtSecret'' \<mapsto> JStr ''secret'',
          ''jwtRolePath'' \<mapsto> JStr ''app_metadata.authorization.roles'',
          ''functions'' \<mapsto> Undefined] ''plugins''"
    by simp
  then have differ: "[''useStaticServer'' \<mapsto> JBool True, ''frameworkPort'' \<mapsto> JNum 3999,
          ''dist'' \<mapsto> JStr ''/site'', ''plugins'' \<mapsto> Undefined, ''port'' \<mapsto> JNum 8888,
          ''jwtSecret'' \<mapsto> JStr ''secret'',
          ''jwtRolePath'' \<mapsto> JStr ''app_metadata.authorization.roles'',
          ''functions'' \<mapsto> Undefined] \<noteq>
        [''useStaticServer'' \<mapsto> JBool True, ''frameworkPort'' \<mapsto> JNum 3999,
          ''dist'' \<mapsto> JStr ''/site'', ''port'' \<mapsto> JNum 8888,
          ''jwtSecret'' \<mapsto> JStr ''secret'',
          ''jwtRolePath'' \<mapsto> JStr ''app_metadata.authorization.roles'',
          ''functions'' \<mapsto> Undefined]"
    by metis
  show ?thesis
    unfolding auto_config_run auto_config_static_resolution
    using differ by (simp add: nothing_detected)
qed

section \<open>Configured command and targetPort under \<open>#auto\<close>\<close>

text \<open>With a command and a \<^verbatim>\<open>targetPort\<close> configured, the \<^verbatim>\<open>#auto\<close> branch is the static
  server for every configuration: nothing is detected because nothing is looked for.\<close>

lemma auto_branch_without_detection:
  assumes "truthy (hasCommandAndTargetPort devConfig)"
  shows "auto_branch X devConfig options project projectDir w =
           io_bind (handleStaticServer X devConfig options projectDir)
             (\<lambda>settings. ret (settings(''plugins'' \<mapsto> Undefined)))
             (w @ [Log (no_app_server_message X)])"
  using assms by (simp add: auto_branch_def io_bind_def ret_def log_def)

text \<open>
  Claim C1 on the code. With \<^verbatim>\<open>framework = '#auto'\<close>, no \<^verbatim>\<open>--dir\<close> flag and both a command and
  a \<^verbatim>\<open>targetPort\<close> configured, the detection is skipped, its result is \<^verbatim>\<open>undefined\<close>, and
  the test \<^verbatim>\<open>frameworkSettings === undefined\<close> sends the run to the static server: the
  returned settings have \<^verbatim>\<open>useStaticServer = true\<close> and the static server port 3999 as
  \<^verbatim>\<open>frameworkPort\<close>, not the configured \<^verbatim>\<open>targetPort\<close> 3000, and no build settings were read.
  \<^verbatim>\<open>mergeSettings\<close>, which takes \<^verbatim>\<open>{}\<close> for an undefined argument, would have given
  \<^verbatim>\<open>frameworkPort = 3000\<close> and \<^verbatim>\<open>useStaticServer = false\<close>.
\<close>

theorem auto_with_command_and_targetPort_runs_static_server:
  "fst (detectServerSettings quiet_host auto_full_config Map.empty gatsby_project ''/site'' []) =
     Inr [''command'' \<mapsto> JStr ''npm start'', ''useStaticServer'' \<mapsto> JBool True,
          ''frameworkPort'' \<mapsto> JNum 3999,
          ''dist'' \<mapsto> JStr ''/site'', ''plugins'' \<mapsto> Undefined, ''port'' \<mapsto> JNum 8888,
          ''jwtSecret'' \<mapsto> JStr ''secret'',
          ''jwtRolePath'' \<mapsto> JStr ''app_metadata.authorization.roles'',
          ''functions'' \<mapsto> Undefined] \<and>
   GetBuildSettings \<notin> set (snd (detectServerSettings quiet_host auto_full_config Map.empty
                                    gatsby_project ''/site'' [])) \<and>
   fst (mergeSettings quiet_host auto_full_config None []) =
     Inr [''command'' \<mapsto> JStr ''npm start'', ''frameworkPort'' \<mapsto> JNum 3000,
          ''dist'' \<mapsto> JStr ''/site'', ''framework'' \<mapsto> Undefined, ''env'' \<mapsto> Undefined,
          ''pollingStrategies'' \<mapsto> JArr [], ''useStaticServer'' \<mapsto> JBool False]"
proof -
  have run: "fst (detectServerSettings quiet_host auto_full_config Map.empty gatsby_project
      ''/site'' []) =
     Inr [''command'' \<mapsto> JStr ''npm start'', ''useStaticServer'' \<mapsto> JBool True,
          ''frameworkPort'' \<mapsto> JNum 3999,
          ''dist'' \<mapsto> JStr ''/site'', ''plugins'' \<mapsto> Undefined, ''port'' \<mapsto> JNum 8888,
          ''jwtSecret'' \<mapsto> JStr ''secret'',
          ''jwtRolePath'' \<mapsto> JStr ''app_metadata.authorization.roles'',
          ''functions'' \<mapsto> Undefined]"
    by (simp add: run_defs auto_branch_def hasCommandAndTargetPort_def
        host_defs auto_full_config_def)
  have skipped: "GetBuildSettings \<notin> set (snd (detectServerSettings quiet_host auto_full_config
      Map.empty gatsby_project ''/site'' []))"
    by (simp add: run_defs auto_branch_def hasCommandAndTargetPort_def
        host_defs auto_full_config_def default_dist_messages_def)
  have merged: "fst (mergeSettings quiet_host auto_full_config None []) =
     Inr [''command'' \<mapsto> JStr ''npm start'', ''frameworkPort'' \<mapsto> JNum 3000,
          ''dist'' \<mapsto> JStr ''/site'', ''framework'' \<mapsto> Undefined, ''env'' \<mapsto> Undefined,
          ''pollingStrategies'' \<mapsto> JArr [], ''useStaticServer'' \<mapsto> JBool False]"
    by (simp add: mergeSettings_def Let_def run_defs host_defs auto_full_config_def)
  from run skipped merged show ?thesis by blast
qed

section \<open>The functions port\<close>

lemma taken_branch_runs:
  "fst (resolve_branch port_9999_taken_host functions_port_config Map.empty empty_project
          ''/site'' []) =
     Inr [''useStaticServer'' \<mapsto> JBool True, ''frameworkPort'' \<mapsto> JNum 3999,
          ''dist'' \<mapsto> JStr ''/site'']"
  "port_events (snd (resolve_branch port_9999_taken_host functions_port_config Map.empty
                       empty_project ''/site'' []))
     = [AcquirePort Undefined 3999 (Inr 3999)]"
  by (simp_all add: run_defs port_9999_taken_host_def plain_host_def spec_acquirePort_def
        Let_def functions_port_config_def)

lemma range_branch_runs:
  "fst (resolve_branch quiet_host functions_port_70000_config Map.empty empty_project
          ''/site'' []) =
     Inr [''useStaticServer'' \<mapsto> JBool True, ''frameworkPort'' \<mapsto> JNum 3999,
          ''dist'' \<mapsto> JStr ''/site'']"
  "port_events (snd (resolve_branch quiet_host functions_port_70000_config Map.empty
                       empty_project ''/site'' []))
     = [AcquirePort Undefined 3999 (Inr 3999)]"
  by (simp_all add: run_defs host_defs functions_port_70000_config_def)

text \<open>
  Claim C4, as the code has it. Let a functions server be due (a functions directory is
  configured or the internal functions directory exists) and let the resolution have
  come to the functions port: the framework value is valid, the branch has yielded
  settings, the configured port has passed its check and the port of the dev server is
  acquired. Then \<^verbatim>\<open>get-port\<close> is asked for the configured \<^verbatim>\<open>functionsPort\<close> as the preferred
  port, or for port 0 (any free port) when none is configured, and its answer decides: if
  it rejects the request (a port that is not a valid port number), the resolution fails
  with that error; if it answers a port, the configured one or any other, the resolution
  goes on with that port as \<^verbatim>\<open>functionsPort\<close> and fails only if the HTTPS files cannot be
  read. Nothing compares the answer with the configured port.
\<close>

theorem functionsPort_is_what_getPort_returns:
  assumes "validateStringProperty X devConfig ''framework'' = Inr ()"
    and "fst (resolve_branch X devConfig options project projectDir w) = Inr settings"
    and "validateConfiguredPort X devConfig (field settings ''frameworkPort'') = Inr ()"
    and "acquirePort X (port_events (snd (resolve_branch X devConfig options project projectDir w)))
           (field devConfig ''port'') 8888 (port_error X) = Inr a"
    and "truthy (field devConfig ''functions'') \<or> truthy (getInternalFunctionsDir X projectDir)"
  shows "case getPort X
                (port_events (snd (resolve_branch X devConfig options project projectDir w))
                   @ [AcquirePort (field devConfig ''port'') 8888 (Inr a)])
                (if truthy (field devConfig ''functionsPort'')
                 then field devConfig ''functionsPort'' else JNum 0) of
           Inl e \<Rightarrow> fst (detectServerSettings X devConfig options project projectDir w) = Inl e
         | Inr q \<Rightarrow>
             (case (if truthy (field devConfig ''https'')
                    then fst (readHttpsSettings X (field devConfig ''https'') [])
                    else Inr Undefined) of
                Inl e \<Rightarrow> fst (detectServerSettings X devConfig options project projectDir w) = Inl e
              | Inr m \<Rightarrow>
                  (\<exists>s. fst (detectServerSettings X devConfig options project projectDir w) = Inr s
                      \<and> field s ''functionsPort'' = JNum q))"
proof -
  have pref: "(if truthy (field devConfig ''functionsPort'')
                 then field devConfig ''functionsPort'' else JNum 0) =
      js_or (field devConfig ''functionsPort'') (JNum 0)"
    by (simp add: js_or_def)
  show ?thesis
    unfolding pref detectServerSettings_outcome[OF assms(1,2)]
      complete_settings_outcome[OF assms(3,4)]
    using assms(5)
    by (auto simp: field_def map_add_def split: sum.splits)
qed


theorem functionsPort_is_what_getPort_returns_witness:
  "field functions_port_config ''functionsPort'' = JNum 9999 \<and>
   getPort port_9999_taken_host
     [AcquirePort Undefined 3999 (Inr 3999), AcquirePort Undefined 8888 (Inr 8888)]
     (JNum 9999) = Inr 49152 \<and>
   (\<exists>s. fst (detectServerSettings port_9999_taken_host functions_port_config Map.empty
               empty_project ''/site'' []) = Inr s
       \<and> field s ''functionsPort'' = JNum 49152) \<and>
   field functions_port_70000_config ''functionsPort'' = JNum 70000 \<and>
   fst (detectServerSettings quiet_host functions_port_70000_config Map.empty
          empty_project ''/site'' []) = Inl (RangeError bad_port_message)"
proof -
  have configured: "field functions_port_config ''functionsPort'' = JNum 9999"
    "field functions_port_70000_config ''functionsPort'' = JNum 70000"
    by (simp_all add: functions_port_config_def functions_port_70000_config_def field_def)
  have facts: "field functions_port_config ''port'' = Undefined"
    "field functions_port_config ''functionsPort'' = JNum 9999"
    "field functions_port_config ''https'' = Undefined"
    and facts': "field functions_port_70000_config ''port'' = Undefined"
    "field functions_port_70000_config ''functionsPort'' = JNum 70000"
    "field functions_port_70000_config ''https'' = Undefined"
    by (simp_all add: functions_port_config_def functions_port_70000_config_def field_def)
  have fw: "validateStringProperty port_9999_taken_host functions_port_config ''framework'' = Inr ()"
    and valid: "validateConfiguredPort port_9999_taken_host functions_port_config
        (field [''useStaticServer'' \<mapsto> JBool True, ''frameworkPort'' \<mapsto> JNum 3999,
                ''dist'' \<mapsto> JStr ''/site''] ''frameworkPort'') = Inr ()"
    and main: "acquirePort port_9999_taken_host
        (port_events (snd (resolve_branch port_9999_taken_host functions_port_config Map.empty
                             empty_project ''/site'' [])))
        (field functions_port_config ''port'') 8888 (port_error port_9999_taken_host) = Inr 8888"
    and started: "truthy (field functions_port_config ''functions'')
        \<or> truthy (getInternalFunctionsDir port_9999_taken_host ''/site'')"
    and answer: "getPort port_9999_taken_host
        [AcquirePort Undefined 3999 (Inr 3999), AcquirePort Undefined 8888 (Inr 8888)]
        (JNum 9999) = Inr 49152"
    unfolding taken_branch_runs
    by (simp_all add: validateStringProperty_def validateConfiguredPort_def field_def
          functions_port_config_def port_9999_taken_host_def plain_host_def
          spec_acquirePort_def preferred_or_spare_def Let_def)
  from functionsPort_is_what_getPort_returns[OF fw taken_branch_runs(1) valid main started]
  have taken: "\<exists>s. fst (detectServerSettings port_9999_taken_host functions_port_config Map.empty
               empty_project ''/site'' []) = Inr s
       \<and> field s ''functionsPort'' = JNum 49152"
    unfolding taken_branch_runs facts by (simp add: answer)
  have fw': "validateStringProperty quiet_host functions_port_70000_config ''framework'' = Inr ()"
    and valid': "validateConfiguredPort quiet_host functions_port_70000_config
        (field [''useStaticServer'' \<mapsto> JBool True, ''frameworkPort'' \<mapsto> JNum 3999,
                ''dist'' \<mapsto> JStr ''/site''] ''frameworkPort'') = Inr ()"
    and main': "acquirePort quiet_host
        (port_events (snd (resolve_branch quiet_host functions_port_70000_config Map.empty
                             empty_project ''/site'' [])))
        (field functions_port_70000_config ''port'') 8888 (port_error quiet_host) = Inr 8888"
    and started': "truthy (field functions_port_70000_config ''functions'')
        \<or> truthy (getInternalFunctionsDir quiet_host ''/site'')"
    and rejected: "getPort quiet_host
        [AcquirePort Undefined 3999 (Inr 3999), AcquirePort Undefined 8888 (Inr 8888)]
        (JNum 70000) = Inl (RangeError bad_port_message)"
    unfolding range_branch_runs
    by (simp_all add: validateStringProperty_def validateConfiguredPort_def field_def
          functions_port_70000_config_def host_defs)
  from functionsPort_is_what_getPort_returns[OF fw' range_branch_runs(1) valid' main' started']
  have range: "fst (detectServerSettings quiet_host functions_port_70000_config Map.empty
          empty_project ''/site'' []) = Inl (RangeError bad_port_message)"
    unfolding range_branch_runs facts' by (simp add: rejected)
  from configured answer taken range show ?thesis by blast
qed

text \<open>
  Claim C4 as stated fails: on a host where port 9999 is taken, a configuration with
  \<^verbatim>\<open>functionsPort = 9999\<close> and a functions directory resolves without an error, and the
  returned \<^verbatim>\<open>functionsPort\<close> is the free port 49152 that \<^verbatim>\<open>get-port\<close> answered instead.
\<close>

theorem functionsPort_replaced_counterexample:
  "field functions_port_config ''functionsPort'' = JNum 9999 \<and>
   truthy (field functions_port_config ''functions'') \<and>
   fst (detectServerSettings port_9999_taken_host functions_port_config Map.empty empty_project
          ''/site'' []) =
     Inr [''useStaticServer'' \<mapsto> JBool True, ''frameworkPort'' \<mapsto> JNum 3999,
          ''dist'' \<mapsto> JStr ''/site'', ''port'' \<mapsto> JNum 8888,
          ''jwtSecret'' \<mapsto> JStr ''secret'',
          ''jwtRolePath'' \<mapsto> JStr ''app_metadata.authorization.roles'',
          ''functions'' \<mapsto> JStr ''functions'', ''functionsPort'' \<mapsto> JNum 49152] \<and>
   port_events (snd (detectServerSettings port_9999_taken_host functions_port_config Map.empty
                       empty_project ''/site'' [])) =
     [AcquirePort Undefined 3999 (Inr 3999), AcquirePort Undefined 8888 (Inr 8888),
      GetPort (JNum 9999) (Inr 49152)]"
  by (simp add: run_defs port_9999_taken_host_def plain_host_def spec_acquirePort_def
       preferred_or_spare_def Let_def functions_port_config_def)


section \<open>Merging an incomplete detection\<close>

lemma portless_detected:
  "fst (detectFrameworkSettings quiet_host portless_project []) = Inr (Some portless_settings)"
  by (simp add: detectFrameworkSettings_def portless_project_def in_workspace_def
        has_devCommand_def opt_string_def gatsby_settings_def portless_settings_def)

text \<open>
  Claim C6, as the code has it. When the configuration overrides neither the command nor
  the \<^verbatim>\<open>targetPort\<close> and the detected settings lack a command or a \<^verbatim>\<open>frameworkPort\<close>,
  \<^verbatim>\<open>mergeSettings\<close> raises no error of its own: it asks for the static server port (the
  configured \<^verbatim>\<open>staticServerPort\<close>, default 3999), and with the port it is given it returns
  settings with \<^verbatim>\<open>useStaticServer = true\<close> and that port as \<^verbatim>\<open>frameworkPort\<close>. It fails
  exactly when the port acquisition fails, with that error.
\<close>

theorem mergeSettings_falls_back_to_static_server:
  assumes "\<not> truthy (field devConfig ''command'')" and "\<not> truthy (field devConfig ''targetPort'')"
    and "\<not> truthy (field fs ''command'') \<or> \<not> truthy (field fs ''frameworkPort'')"
  shows "case acquirePort X (port_events w) (field devConfig ''staticServerPort'') 3999
                static_port_error of
           Inl e \<Rightarrow> fst (mergeSettings X devConfig (Some fs) w) = Inl e
         | Inr p \<Rightarrow> (\<exists>s. fst (mergeSettings X devConfig (Some fs) w) = Inr s
                       \<and> field s ''useStaticServer'' = JBool True
                       \<and> field s ''frameworkPort'' = JNum p)"
proof -
  have static: "\<not> truthy (js_and (js_or (field devConfig ''command'') (field fs ''command''))
                   (js_or (field devConfig ''targetPort'') (field fs ''frameworkPort'')))"
    using assms by (auto simp: js_and_def js_or_def)
  show ?thesis
    using static
    by (simp add: mergeSettings_def Let_def getStaticServerPort_def acquirePort_io_def
          io_bind_def ret_def getDefaultDist_def field_def DEFAULT_STATIC_PORT_def
          split: sum.splits)
qed

theorem mergeSettings_falls_back_to_static_server_witness:
  "fst (detectFrameworkSettings quiet_host portless_project []) = Inr (Some portless_settings) \<and>
   \<not> truthy (field portless_settings ''frameworkPort'') \<and>
   (\<exists>s. fst (mergeSettings quiet_host auto_config (Some portless_settings) []) = Inr s
       \<and> field s ''useStaticServer'' = JBool True
       \<and> field s ''frameworkPort'' = JNum 3999)"
proof -
  have no_command: "\<not> truthy (field auto_config ''command'')"
    and no_target: "\<not> truthy (field auto_config ''targetPort'')"
    by (simp_all add: auto_config_def field_def)
  have no_port: "\<not> truthy (field portless_settings ''frameworkPort'')"
    by (simp add: portless_settings_def getSettingsFromDetectedSettings_def field_def)
  then have lacks: "\<not> truthy (field portless_settings ''command'')
      \<or> \<not> truthy (field portless_settings ''frameworkPort'')"
    by simp
  have port: "acquirePort quiet_host (port_events []) (field auto_config ''staticServerPort'')
      3999 static_port_error = Inr 3999"
    by (simp add: host_defs auto_config_def field_def)
  from mergeSettings_falls_back_to_static_server[OF no_command no_target lacks,
      of quiet_host "[]"]
  have "\<exists>s. fst (mergeSettings quiet_host auto_config (Some portless_settings) []) = Inr s
       \<and> field s ''useStaticServer'' = JBool True
       \<and> field s ''frameworkPort'' = JNum 3999"
    unfolding port by simp
  with portless_detected no_port show ?thesis by blast
qed

text \<open>
  Claim C6 as stated fails: on a host where port 4000 is taken, with
  \<^verbatim>\<open>staticServerPort = 4000\<close> configured and one framework detected without a
  \<^verbatim>\<open>frameworkPort\<close>, \<^verbatim>\<open>mergeSettings\<close> produces no settings; it fails with the error of the
  port acquisition.
\<close>

theorem mergeSettings_static_port_taken_counterexample:
  "field auto_port_4000_config ''command'' = Undefined \<and>
   field auto_port_4000_config ''targetPort'' = Undefined \<and>
   fst (detectFrameworkSettings port_4000_taken_host portless_project []) =
     Inr (Some portless_settings) \<and>
   field portless_settings ''frameworkPort'' = Undefined \<and>
   fst (mergeSettings port_4000_taken_host auto_port_4000_config (Some portless_settings) []) =
     Inl (Error static_port_error)"
proof -
  have detected: "fst (detectFrameworkSettings port_4000_taken_host portless_project []) =
      Inr (Some portless_settings)"
    by (simp add: detectFrameworkSettings_def portless_project_def in_workspace_def
        has_devCommand_def opt_string_def gatsby_settings_def portless_settings_def)
  have merged: "fst (mergeSettings port_4000_taken_host auto_port_4000_config
      (Some portless_settings) []) = Inl (Error static_port_error)"
    by (simp add: mergeSettings_def Let_def getStaticServerPort_def acquirePort_io_def
          io_bind_def field_def js_or_def js_and_def portless_settings_def
          getSettingsFromDetectedSettings_def opt_string_def gatsby_settings_def
          auto_port_4000_config_def port_4000_taken_host_def plain_host_def
          spec_acquirePort_def)
  show ?thesis
    using detected merged
    by (simp add: auto_port_4000_config_def field_def portless_settings_def
          getSettingsFromDetectedSettings_def)
qed

section \<open>The telemetry flags\<close>

lemma is_hex_hex_digit: "is_hex (hex_digit n)"
proof -
  have "list_all (\<lambda>k. is_hex (''0123456789abcdef'' ! k)) [0..<16]"
    by code_simp
  moreover have "n mod 16 \<in> set [0..<16]" by simp
  ultimately show ?thesis
    unfolding hex_digit_def list_all_iff by blast
qed

lemma variant_digit: "hex_digit (8 + k mod 4) \<in> set ''89abAB''"
proof -
  have "list_all (\<lambda>j. hex_digit (8 + j) \<in> set ''89abAB'') [0..<4]"
    by code_simp
  moreover have "k mod 4 \<in> set [0..<4]" by simp
  ultimately show ?thesis
    unfolding list_all_iff by blast
qed

lemma list_all_hex_map: "list_all is_hex (map (\<lambda>i. hex_digit (f i)) xs)"
  by (simp add: list_all_iff is_hex_hex_digit)

lemma valid_uuid_v4: "valid_uuid (uuid_v4 ns)"
  using variant_digit[of "nibble ns 16"]
  unfolding valid_uuid_def
  by (simp add: uuid_v4_def nth_append list_all_hex_map is_hex_hex_digit del: upt_Suc)

text \<open>Whatever the random digits, the identifier is a UUID of version 4.\<close>

lemma uuidVersion_uuid_v4: "uuidVersion (uuid_v4 ns) = Some 4"
  by (simp add: uuidVersion_def valid_uuid_v4)
     (simp add: uuid_v4_def nth_append hex_value_def)

lemma track_disabled: "\<not> telemetry_enabled c \<Longrightarrow> track pkg nodejsVersion c event = []"
  by (simp add: track_def)

text \<open>
  Claim C9, on the telemetry modelled from the specification. An invocation with
  \<^verbatim>\<open>--telemetry-disable\<close> sends no request, whatever it reports. An invocation with
  \<^verbatim>\<open>--telemetry-enable\<close> sends exactly one request: a \<^verbatim>\<open>POST\<close> to \<^verbatim>\<open>/track\<close> whose event is
  \<^verbatim>\<open>cli:user_telemetryEnabled\<close>, whose anonymous identifier is a UUID of version 4 and
  whose user agent is the name of the CLI, a slash and its version.
\<close>

theorem telemetry_flags:
  "fst (invoke_cli pkg nodejsVersion fresh c TelemetryDisable events) = [] \<and>
   (\<exists>r. fst (invoke_cli pkg nodejsVersion fresh c TelemetryEnable events) = [r]
       \<and> http_method r = ''POST'' \<and> url_path r = ''/track''
       \<and> event_name r = ''cli:user_telemetryEnabled''
       \<and> uuidVersion (anonymousId r) = Some 4
       \<and> user_agent r = pkg_name pkg @ ''/'' @ pkg_version pkg)"
proof -
  have "concat (map (track pkg nodejsVersion
      ((load_or_generate fresh c)\<lparr>telemetry_enabled := False\<rparr>)) events) = []"
    by (simp add: track_disabled)
  then have off: "fst (invoke_cli pkg nodejsVersion fresh c TelemetryDisable events) = []"
    by (simp add: invoke_cli_def Let_def)
  have on: "\<exists>r. fst (invoke_cli pkg nodejsVersion fresh c TelemetryEnable events) = [r]
       \<and> http_method r = ''POST'' \<and> url_path r = ''/track''
       \<and> event_name r = ''cli:user_telemetryEnabled''
       \<and> uuidVersion (anonymousId r) = Some 4
       \<and> user_agent r = pkg_name pkg @ ''/'' @ pkg_version pkg"
    by (simp add: invoke_cli_def Let_def track_def uuidVersion_uuid_v4)
  from off on show ?thesis by blast
qed

end
